theory Spec2Isabelle
  imports Complex_Main "HOL-Library.Char_ord" "HOL-Library.List_Lexorder"
begin

section \<open>JavaScript numbers\<close>

text \<open>
  A JavaScript number is modelled as a real number or one of the special values
  \<open>Infinity\<close>, \<open>-Infinity\<close> and \<open>NaN\<close>. \<open>Undefined\<close> is the value that a read past the end
  of a typed array yields; in arithmetic and in comparisons it is converted to \<open>NaN\<close>.
  The arithmetic on finite values is exact: rounding to 64-bit (and 32-bit) floating
  point, overflow to an infinity and the sign of zero are not modelled. The edge
  analyzer, whose branches turn on a rounded value, is written over an arbitrary
  arithmetic instead.
\<close>

datatype number = Fin real | PInf | NInf | NaN | Undefined

datatype error = TypeError

fun bindR :: "error + 'a \<Rightarrow> ('a \<Rightarrow> error + 'b) \<Rightarrow> error + 'b" where
  "bindR (Inl e) f = Inl e"
| "bindR (Inr v) f = f v"

instantiation number :: "{plus, minus, uminus, times, inverse, abs, ord}"
begin

fun uminus_number :: "number \<Rightarrow> number" where
  "uminus_number (Fin a) = Fin (- a)"
| "uminus_number PInf = NInf"
| "uminus_number NInf = PInf"
| "uminus_number NaN = NaN"
| "uminus_number Undefined = NaN"

fun plus_number :: "number \<Rightarrow> number \<Rightarrow> number" where
  "plus_number (Fin a) (Fin b) = Fin (a + b)"
| "plus_number (Fin a) PInf = PInf"
| "plus_number (Fin a) NInf = NInf"
| "plus_number PInf (Fin b) = PInf"
| "plus_number PInf PInf = PInf"
| "plus_number NInf (Fin b) = NInf"
| "plus_number NInf NInf = NInf"
| "plus_number _ _ = NaN"

definition minus_number :: "number \<Rightarrow> number \<Rightarrow> number" where
  "minus_number a b = a + (- b)"

fun times_number :: "number \<Rightarrow> number \<Rightarrow> number" where
  "times_number (Fin a) (Fin b) = Fin (a * b)"
| "times_number (Fin a) PInf = (if a = 0 then NaN else if 0 < a then PInf else NInf)"
| "times_number (Fin a) NInf = (if a = 0 then NaN else if 0 < a then NInf else PInf)"
| "times_number PInf (Fin b) = (if b = 0 then NaN else if 0 < b then PInf else NInf)"
| "times_number NInf (Fin b) = (if b = 0 then NaN else if 0 < b then NInf else PInf)"
| "times_number PInf PInf = PInf"
| "times_number PInf NInf = NInf"
| "times_number NInf PInf = NInf"
| "times_number NInf NInf = PInf"
| "times_number _ _ = NaN"

fun divide_number :: "number \<Rightarrow> number \<Rightarrow> number" where
  "divide_number (Fin a) (Fin b) =
     (if b \<noteq> 0 then Fin (a / b)
      else if a = 0 then NaN else if 0 < a then PInf else NInf)"
| "divide_number (Fin a) PInf = Fin 0"
| "divide_number (Fin a) NInf = Fin 0"
| "divide_number PInf (Fin b) = (if 0 \<le> b then PInf else NInf)"
| "divide_number NInf (Fin b) = (if 0 \<le> b then NInf else PInf)"
| "divide_number _ _ = NaN"

definition inverse_number :: "number \<Rightarrow> number" where
  "inverse_number a = divide (Fin 1) a"

fun abs_number :: "number \<Rightarrow> number" where
  "abs_number (Fin a) = Fin \<bar>a\<bar>"
| "abs_number PInf = PInf"
| "abs_number NInf = PInf"
| "abs_number NaN = NaN"
| "abs_number Undefined = NaN"

fun less_number :: "number \<Rightarrow> number \<Rightarrow> bool" where
  "less_number (Fin a) (Fin b) = (a < b)"
| "less_number (Fin a) PInf = True"
| "less_number NInf (Fin b) = True"
| "less_number NInf PInf = True"
| "less_number _ _ = False"

fun less_eq_number :: "number \<Rightarrow> number \<Rightarrow> bool" where
  "less_eq_number (Fin a) (Fin b) = (a \<le> b)"
| "less_eq_number (Fin a) PInf = True"
| "less_eq_number NInf (Fin b) = True"
| "less_eq_number NInf PInf = True"
| "less_eq_number PInf PInf = True"
| "less_eq_number NInf NInf = True"
| "less_eq_number _ _ = False"

instance ..

end

text \<open>Strict equality \<open>===\<close> on numbers: \<open>NaN\<close> is not equal to itself.\<close>

definition strictEq :: "number \<Rightarrow> number \<Rightarrow> bool" where
  "strictEq a b = (a = b \<and> a \<noteq> NaN)"

text \<open>The operand test of \<open>a || b\<close>: \<open>0\<close>, \<open>NaN\<close> and \<open>undefined\<close> are falsy.\<close>

fun truthy :: "number \<Rightarrow> bool" where
  "truthy (Fin a) = (a \<noteq> 0)"
| "truthy PInf = True"
| "truthy NInf = True"
| "truthy NaN = False"
| "truthy Undefined = False"

definition orElse :: "number \<Rightarrow> number \<Rightarrow> number" where
  "orElse a b = (if truthy a then a else b)"

fun Math_min :: "number \<Rightarrow> number \<Rightarrow> number" where
  "Math_min NaN _ = NaN"
| "Math_min Undefined _ = NaN"
| "Math_min _ NaN = NaN"
| "Math_min _ Undefined = NaN"
| "Math_min a b = (if a \<le> b then a else b)"

fun Math_max :: "number \<Rightarrow> number \<Rightarrow> number" where
  "Math_max NaN _ = NaN"
| "Math_max Undefined _ = NaN"
| "Math_max _ NaN = NaN"
| "Math_max _ Undefined = NaN"
| "Math_max a b = (if a \<le> b then b else a)"

fun Math_sqrt :: "number \<Rightarrow> number" where
  "Math_sqrt (Fin a) = (if a < 0 then NaN else Fin (sqrt a))"
| "Math_sqrt PInf = PInf"
| "Math_sqrt _ = NaN"

fun Math_floor :: "number \<Rightarrow> number" where
  "Math_floor (Fin a) = Fin (of_int \<lfloor>a\<rfloor>)"
| "Math_floor PInf = PInf"
| "Math_floor NInf = NInf"
| "Math_floor _ = NaN"

text \<open>\<open>Math.round\<close> rounds to the nearest integer, a tie towards \<open>+Infinity\<close>.\<close>

fun Math_round :: "number \<Rightarrow> number" where
  "Math_round (Fin a) = Fin (of_int \<lfloor>a + 1 / 2\<rfloor>)"
| "Math_round PInf = PInf"
| "Math_round NInf = NInf"
| "Math_round _ = NaN"

fun Math_acos :: "number \<Rightarrow> number" where
  "Math_acos (Fin a) = (if - 1 \<le> a \<and> a \<le> 1 then Fin (arccos a) else NaN)"
| "Math_acos _ = NaN"

fun Math_sin :: "number \<Rightarrow> number" where
  "Math_sin (Fin a) = Fin (sin a)"
| "Math_sin _ = NaN"

definition Math_PI :: number where
  "Math_PI = Fin pi"

text \<open>A counter or an array length, as a number.\<close>

definition num :: "nat \<Rightarrow> number" where
  "num n = Fin (real n)"

subsection \<open>Number.prototype.toFixed\<close>

definition digitChar :: "nat \<Rightarrow> char" where
  "digitChar d = ''0123456789'' ! d"

function natDigits :: "nat \<Rightarrow> string" where
  "natDigits n = (if n < 10 then [digitChar n] else natDigits (n div 10) @ [digitChar (n mod 10)])"
  by pat_completeness auto
termination
  by (relation "measure id") auto

declare natDigits.simps [simp del]

text \<open>
  The decimal string of a non-negative \<open>x\<close> below \<open>10^21\<close> with \<open>f\<close> digits after the point:
  the integer \<open>n\<close> nearest to \<open>x * 10^f\<close> (the larger one on a tie), padded with zeros to
  at least \<open>f + 1\<close> digits.
\<close>

definition fixedDigits :: "nat \<Rightarrow> real \<Rightarrow> string" where
  "fixedDigits f x =
     (let n = nat \<lfloor>x * 10 ^ f + 1 / 2\<rfloor>;
          m = natDigits n;
          m' = replicate (f + 1 - length m) (CHR ''0'') @ m;
          k = length m'
      in if f = 0 then m else take (k - f) m' @ ''.'' @ drop (k - f) m')"

text \<open>
  \<open>x.toFixed(f)\<close>. The call on \<open>undefined\<close> throws a TypeError. From \<open>10^21\<close> on JavaScript
  prints the shortest exponent notation of the 64-bit value, which is not a function of
  the real number alone: that printer is the parameter \<open>big\<close>.
\<close>

fun toFixed :: "(real \<Rightarrow> string) \<Rightarrow> nat \<Rightarrow> number \<Rightarrow> error + string" where
  "toFixed big f (Fin a) =
     Inr ((if a < 0 then ''-'' else '''') @
          (if 10 ^ 21 \<le> \<bar>a\<bar> then big \<bar>a\<bar> else fixedDigits f \<bar>a\<bar>))"
| "toFixed big f PInf = Inr ''Infinity''"
| "toFixed big f NInf = Inr ''-Infinity''"
| "toFixed big f NaN = Inr ''NaN''"
| "toFixed big f Undefined = Inl TypeError"

section \<open>Arrays of numbers\<close>

text \<open>
  \<open>Array.prototype.sort\<close> with a comparator, as a stable insertion sort: \<open>a\<close> is placed
  before \<open>b\<close> when \<open>cmp a b < 0\<close>. On an array that holds \<open>NaN\<close> the comparator is
  inconsistent and ECMAScript leaves the order to the implementation.
\<close>

fun insertBy :: "(number \<Rightarrow> number \<Rightarrow> number) \<Rightarrow> number \<Rightarrow> number list \<Rightarrow> number list" where
  "insertBy cmp a [] = [a]"
| "insertBy cmp a (b # bs) = (if cmp a b < Fin 0 then a # b # bs else b # insertBy cmp a bs)"

definition sortBy :: "(number \<Rightarrow> number \<Rightarrow> number) \<Rightarrow> number list \<Rightarrow> number list" where
  "sortBy cmp xs = foldl (\<lambda>acc a. insertBy cmp a acc) [] xs"

text \<open>\<open>xs[i] || 0\<close>: a missing element is \<open>undefined\<close>.\<close>

definition nthOrZero :: "number list \<Rightarrow> nat \<Rightarrow> number" where
  "nthOrZero xs i = orElse (if i < length xs then xs ! i else Undefined) (Fin 0)"

section \<open>Vectors and boxes of the three.js library\<close>

text \<open>
  \<open>THREE.Vector3\<close>, \<open>THREE.Box3\<close> and \<open>THREE.BufferAttribute\<close> belong to the three.js
  library, which the program imports. The operations the program calls are written out
  here as the library defines them. The fields \<open>x\<close>, \<open>y\<close>, \<open>z\<close> are named \<open>vx\<close>, \<open>vy\<close>,
  \<open>vz\<close>, and \<open>min\<close>, \<open>max\<close> of a box \<open>bmin\<close>, \<open>bmax\<close>.
\<close>

record Vector3 =
  vx :: number
  vy :: number
  vz :: number

definition vec :: "number \<Rightarrow> number \<Rightarrow> number \<Rightarrow> Vector3" where
  "vec a b c = \<lparr>vx = a, vy = b, vz = c\<rparr>"

definition subVectors :: "Vector3 \<Rightarrow> Vector3 \<Rightarrow> Vector3" where
  "subVectors a b = vec (vx a - vx b) (vy a - vy b) (vz a - vz b)"

definition addVectors :: "Vector3 \<Rightarrow> Vector3 \<Rightarrow> Vector3" where
  "addVectors a b = vec (vx a + vx b) (vy a + vy b) (vz a + vz b)"

definition crossVectors :: "Vector3 \<Rightarrow> Vector3 \<Rightarrow> Vector3" where
  "crossVectors a b =
     vec (vy a * vz b - vz a * vy b) (vz a * vx b - vx a * vz b) (vx a * vy b - vy a * vx b)"

definition dot :: "Vector3 \<Rightarrow> Vector3 \<Rightarrow> number" where
  "dot a b = vx a * vx b + vy a * vy b + vz a * vz b"

definition lengthV :: "Vector3 \<Rightarrow> number" where
  "lengthV v = Math_sqrt (vx v * vx v + vy v * vy v + vz v * vz v)"

definition multiplyScalar :: "Vector3 \<Rightarrow> number \<Rightarrow> Vector3" where
  "multiplyScalar v s = vec (vx v * s) (vy v * s) (vz v * s)"

definition divideScalar :: "Vector3 \<Rightarrow> number \<Rightarrow> Vector3" where
  "divideScalar v s = multiplyScalar v (Fin 1 / s)"

text \<open>
  Modelled from the spec: \<open>Vector3.normalize\<close> is library code that is not part of the
  sources. The spec requires that normalizing a zero vector yields a defined zero vector
  and raises nothing; three.js does so by dividing by \<open>length() || 1\<close>.
\<close>

definition normalize :: "Vector3 \<Rightarrow> Vector3" where
  "normalize v = divideScalar v (orElse (lengthV v) (Fin 1))"

definition distanceTo :: "Vector3 \<Rightarrow> Vector3 \<Rightarrow> number" where
  "distanceTo a b =
     (let dx = vx a - vx b; dy = vy a - vy b; dz = vz a - vz b
      in Math_sqrt (dx * dx + dy * dy + dz * dz))"

text \<open>
  \<open>new THREE.Vector3().fromBufferAttribute(positions, i)\<close>: the buffer is the list of its
  points, \<open>positions.count\<close> its length. An index past the end reads \<open>undefined\<close> for each
  coordinate and raises nothing.
\<close>

definition fromBufferAttribute :: "Vector3 list \<Rightarrow> nat \<Rightarrow> Vector3" where
  "fromBufferAttribute positions i =
     (if i < length positions then positions ! i else vec Undefined Undefined Undefined)"

record Box3 =
  bmin :: Vector3
  bmax :: Vector3

definition expandByPoint :: "Vector3 \<Rightarrow> Box3 \<Rightarrow> Box3" where
  "expandByPoint p b =
     \<lparr>bmin = vec (Math_min (vx (bmin b)) (vx p)) (Math_min (vy (bmin b)) (vy p))
                 (Math_min (vz (bmin b)) (vz p)),
      bmax = vec (Math_max (vx (bmax b)) (vx p)) (Math_max (vy (bmax b)) (vy p))
                 (Math_max (vz (bmax b)) (vz p))\<rparr>"

text \<open>\<open>geometry.computeBoundingBox()\<close>: the empty box, expanded by every point.\<close>

definition computeBoundingBox :: "Vector3 list \<Rightarrow> Box3" where
  "computeBoundingBox positions =
     fold expandByPoint positions \<lparr>bmin = vec PInf PInf PInf, bmax = vec NInf NInf NInf\<rparr>"

definition isEmpty :: "Box3 \<Rightarrow> bool" where
  "isEmpty b = (vx (bmax b) < vx (bmin b) \<or> vy (bmax b) < vy (bmin b) \<or> vz (bmax b) < vz (bmin b))"

definition getSize :: "Box3 \<Rightarrow> Vector3" where
  "getSize b = (if isEmpty b then vec (Fin 0) (Fin 0) (Fin 0) else subVectors (bmax b) (bmin b))"

definition getCenter :: "Box3 \<Rightarrow> Vector3" where
  "getCenter b =
     (if isEmpty b then vec (Fin 0) (Fin 0) (Fin 0)
      else multiplyScalar (addVectors (bmin b) (bmax b)) (Fin 0.5))"

section \<open>The data model\<close>

datatype Severity = Error | Warning | Info

text \<open>
  A validation result. The texts \<open>message\<close> and \<open>details\<close> are presentation strings built
  from the same metrics; no check reads them back, and they are left out. The field
  \<open>severity\<close> is optional in the interface.
\<close>

record ValidationResult =
  name :: string
  passed :: bool
  severity :: "Severity option"

record EdgeAnalysis =
  totalEdges :: number
  sharpEdges :: number
  sharpEdgeAngles :: "number list"
  estimatedMinCurvatureRadius :: number
  tJunctionCount :: number

record CavityAnalysis =
  potentialCavities :: number
  boundaryLoops :: number
  estimatedHoleDepths :: "number list"
  blindHoleCount :: number
  throughHoleCount :: number

record ChannelAnalysis =
  potentialChannels :: number
  estimatedDiameters :: "number list"
  estimatedDepths :: "number list"
  straightChannels :: number
  curvedChannels :: number

record SurfaceFeatureAnalysis =
  heightVariations :: "number list"
  potentialReliefs :: number
  potentialEngravings :: number
  minFeatureWidth :: number
  maxFeatureHeight :: number

record WallThicknessAnalysis =
  minThickness :: number
  maxThickness :: number
  avgThickness :: number
  samples :: "number list"
  thinAreas :: number

record GeometricComplexity =
  triangleDensity :: number
  surfaceCurvatureVariance :: number
  componentCount :: number
  genus :: number
  hasFlatBase :: bool
  flatBaseArea :: number
  flatBaseNormal :: "Vector3 option"

text \<open>
  The fields \<open>length\<close>, \<open>width\<close>, \<open>height\<close> of \<open>dimensions\<close> carry the prefix \<open>dim\<close>. The
  field \<open>geometry\<close> of a bundle holds the points of the \<open>position\<close> attribute, and
  \<open>normalDistribution\<close> is a vector.
\<close>

record Dimensions =
  dimLength :: number
  dimWidth :: number
  dimHeight :: number

record ModelData =
  geometry :: "Vector3 list"
  dimensions :: Dimensions
  volume :: number
  surfaceArea :: number
  triangleCount :: number
  vertexCount :: number
  edgeCount :: number
  boundingBox :: Box3
  normalDistribution :: Vector3
  edgeAnalysis :: EdgeAnalysis
  cavityAnalysis :: CavityAnalysis
  channelAnalysis :: ChannelAnalysis
  surfaceFeatures :: SurfaceFeatureAnalysis
  wallThickness :: WallThicknessAnalysis
  geometricComplexity :: GeometricComplexity

subsection \<open>The guideline table\<close>

record ChannelSpec =
  diameterRange :: "number \<times> number"
  maxDepth :: "number option"
  specMinCurvatureRadius :: "number option"

record Guidelines =
  maxDimensions :: Dimensions
  wallThicknessMin :: number
  wallThicknessMax :: number
  minGap :: number
  aspectRatioMax :: number
  aspectRatioRecommended :: number
  minCurvatureRadius :: number
  minTJunctionRadius :: number
  minCavityWidth :: number
  cavityDepthRatioMin :: number
  cavityDepthRatioMax :: number
  channelSpecs :: "ChannelSpec list"
  minCharacterHeight :: number
  minLineWidth :: number
  minThreadSize :: number
  hollowWallThickness :: number
  drainHoleDiameterMin :: number
  drainHoleDiameterRecommended :: number

definition GUIDELINES :: Guidelines where
  "GUIDELINES =
     \<lparr>maxDimensions = \<lparr>dimLength = Fin 50, dimWidth = Fin 80, dimHeight = Fin 40\<rparr>,
      wallThicknessMin = Fin 1,
      wallThicknessMax = Fin 15,
      minGap = Fin 1,
      aspectRatioMax = Fin 10,
      aspectRatioRecommended = Fin 5,
      minCurvatureRadius = Fin 0.5,
      minTJunctionRadius = Fin 2,
      minCavityWidth = Fin 0.4,
      cavityDepthRatioMin = Fin 2,
      cavityDepthRatioMax = Fin 4,
      channelSpecs =
        [\<lparr>diameterRange = (Fin 1, Fin 3), maxDepth = Some (Fin 10),
           specMinCurvatureRadius = None\<rparr>,
         \<lparr>diameterRange = (Fin 3, Fin 5), maxDepth = Some (Fin 30),
           specMinCurvatureRadius = None\<rparr>,
         \<lparr>diameterRange = (Fin 5, PInf), maxDepth = None,
           specMinCurvatureRadius = Some (Fin 25)\<rparr>],
      minCharacterHeight = Fin 4,
      minLineWidth = Fin 0.5,
      minThreadSize = Fin 10,
      hollowWallThickness = Fin 1.2,
      drainHoleDiameterMin = Fin 2,
      drainHoleDiameterRecommended = Fin 4\<rparr>"

section \<open>Loops over the triangles\<close>

text \<open>
  The values of \<open>i\<close> that \<open>for (let i = 0; i < bound; i += step)\<close> visits, in order. The
  bound is a number and need not be an integer (\<open>positions.count / 3\<close>); \<open>limit\<close> is a
  natural number that no visited value reaches.
\<close>

definition forRange :: "nat \<Rightarrow> number \<Rightarrow> nat \<Rightarrow> nat list" where
  "forRange step bound limit = filter (\<lambda>i. i mod step = 0 \<and> num i < bound) [0..<limit]"

text \<open>\<open>const triangleCount = positions.count / 3\<close>, and the loop \<open>i < triangleCount\<close>.\<close>

definition triangleCountOf :: "Vector3 list \<Rightarrow> number" where
  "triangleCountOf positions = num (length positions) / Fin 3"

definition triangleIndices :: "Vector3 list \<Rightarrow> nat list" where
  "triangleIndices positions = forRange 1 (triangleCountOf positions) (length positions)"

text \<open>A loop whose body may throw: the first error ends it.\<close>

fun foldR :: "('a \<Rightarrow> 's \<Rightarrow> error + 's) \<Rightarrow> 'a list \<Rightarrow> 's \<Rightarrow> error + 's" where
  "foldR f [] s = Inr s"
| "foldR f (a # as) s = bindR (f a s) (foldR f as)"

text \<open>
  \<open>faceNormals[i]\<close> followed by a property read or a method call on the element: an index
  past the end reads \<open>undefined\<close>, and the access throws a TypeError.
\<close>

definition nthNormal :: "Vector3 list \<Rightarrow> nat \<Rightarrow> error + Vector3" where
  "nthNormal faceNormals i = (if i < length faceNormals then Inr (faceNormals ! i) else Inl TypeError)"

section \<open>Edge adjacency builder\<close>

text \<open>
  The \<open>Map\<close> from edge keys to entries is a list of pairs in insertion order, which is
  the order \<open>forEach\<close> follows; a key occurs once.
\<close>

record EdgeEntry =
  faces :: "nat list"
  vertices :: "Vector3 \<times> Vector3"

type_synonym EdgeMap = "(string \<times> EdgeEntry) list"

definition pointKey :: "(real \<Rightarrow> string) \<Rightarrow> Vector3 \<Rightarrow> error + string" where
  "pointKey big v =
     bindR (toFixed big 4 (vx v)) (\<lambda>a.
     bindR (toFixed big 4 (vy v)) (\<lambda>b.
     bindR (toFixed big 4 (vz v)) (\<lambda>c.
     Inr (a @ '','' @ b @ '','' @ c))))"

definition makeEdgeKey :: "(real \<Rightarrow> string) \<Rightarrow> Vector3 \<Rightarrow> Vector3 \<Rightarrow> error + string" where
  "makeEdgeKey big v1 v2 =
     bindR (pointKey big v1) (\<lambda>key1.
     bindR (pointKey big v2) (\<lambda>key2.
     Inr (if key1 < key2 then key1 @ ''-'' @ key2 else key2 @ ''-'' @ key1)))"

text \<open>
  \<open>if (!edgeMap.has(key)) edgeMap.set(key, {faces: [], vertices: [va, vb]});
  edgeMap.get(key).faces.push(i)\<close>
\<close>

fun pushFace :: "string \<Rightarrow> Vector3 \<times> Vector3 \<Rightarrow> nat \<Rightarrow> EdgeMap \<Rightarrow> EdgeMap" where
  "pushFace key vs i [] = [(key, \<lparr>faces = [i], vertices = vs\<rparr>)]"
| "pushFace key vs i ((k, e) # m) =
     (if k = key then (k, e\<lparr>faces := faces e @ [i]\<rparr>) # m else (k, e) # pushFace key vs i m)"

definition addEdge :: "(real \<Rightarrow> string) \<Rightarrow> nat \<Rightarrow> Vector3 \<times> Vector3 \<Rightarrow> EdgeMap \<Rightarrow> error + EdgeMap" where
  "addEdge big i vs m =
     bindR (makeEdgeKey big (fst vs) (snd vs)) (\<lambda>key. Inr (pushFace key vs i m))"

text \<open>The array \<open>edges\<close> of the triangle \<open>i\<close>.\<close>

definition triangleEdges :: "Vector3 list \<Rightarrow> nat \<Rightarrow> (Vector3 \<times> Vector3) list" where
  "triangleEdges positions i =
     (let v0 = fromBufferAttribute positions (i * 3);
          v1 = fromBufferAttribute positions (i * 3 + 1);
          v2 = fromBufferAttribute positions (i * 3 + 2)
      in [(v0, v1), (v1, v2), (v2, v0)])"

definition addTriangle :: "(real \<Rightarrow> string) \<Rightarrow> Vector3 list \<Rightarrow> nat \<Rightarrow> EdgeMap \<Rightarrow> error + EdgeMap" where
  "addTriangle big positions i m = foldR (addEdge big i) (triangleEdges positions i) m"

definition buildEdgeMap :: "(real \<Rightarrow> string) \<Rightarrow> Vector3 list \<Rightarrow> error + EdgeMap" where
  "buildEdgeMap big positions = foldR (addTriangle big positions) (triangleIndices positions) []"

section \<open>Face normal computer\<close>

definition faceNormal :: "Vector3 list \<Rightarrow> nat \<Rightarrow> Vector3" where
  "faceNormal positions i =
     (let v0 = fromBufferAttribute positions (i * 3);
          v1 = fromBufferAttribute positions (i * 3 + 1);
          v2 = fromBufferAttribute positions (i * 3 + 2);
          edge1 = subVectors v1 v0;
          edge2 = subVectors v2 v0
      in normalize (crossVectors edge1 edge2))"

definition calculateFaceNormals :: "Vector3 list \<Rightarrow> Vector3 list" where
  "calculateFaceNormals positions = map (faceNormal positions) (triangleIndices positions)"

section \<open>Edge and curvature analyzer\<close>

text \<open>
  The engine computes on 64-bit floating-point numbers: every sum, difference, product
  and quotient, and every call of \<open>Math.sqrt\<close>, \<open>Math.acos\<close> and \<open>Math.sin\<close>, yields a
  rounded value, and \<open>Math.PI\<close> is the double nearest to pi. The analyzer compares such a
  value with 90, and for two faces that meet at a right angle the rounding decides on
  which side of 90 it falls. The analyzer is therefore written over an arithmetic, the
  record of these operations. Comparisons, \<open>Math.min\<close> and \<open>Math.max\<close> do not round, and
  the constants \<open>1\<close>, \<open>2\<close>, \<open>90\<close>, \<open>180\<close> and \<open>360\<close> are numbers of every arithmetic.
\<close>

record Arith =
  fadd :: "number \<Rightarrow> number \<Rightarrow> number"
  fsub :: "number \<Rightarrow> number \<Rightarrow> number"
  fmul :: "number \<Rightarrow> number \<Rightarrow> number"
  fdiv :: "number \<Rightarrow> number \<Rightarrow> number"
  fsqrt :: "number \<Rightarrow> number"
  facos :: "number \<Rightarrow> number"
  fsin :: "number \<Rightarrow> number"
  fpi :: number

text \<open>\<open>Vector3.dot\<close> and \<open>Vector3.distanceTo\<close> of three.js, in an arithmetic.\<close>

definition dotIn :: "Arith \<Rightarrow> Vector3 \<Rightarrow> Vector3 \<Rightarrow> number" where
  "dotIn ar a b =
     fadd ar (fadd ar (fmul ar (vx a) (vx b)) (fmul ar (vy a) (vy b))) (fmul ar (vz a) (vz b))"

definition distanceToIn :: "Arith \<Rightarrow> Vector3 \<Rightarrow> Vector3 \<Rightarrow> number" where
  "distanceToIn ar a b =
     (let dx = fsub ar (vx a) (vx b); dy = fsub ar (vy a) (vy b); dz = fsub ar (vz a) (vz b)
      in fsqrt ar (fadd ar (fadd ar (fmul ar dx dx) (fmul ar dy dy)) (fmul ar dz dz)))"

definition dihedralAngleIn :: "Arith \<Rightarrow> Vector3 \<Rightarrow> Vector3 \<Rightarrow> number" where
  "dihedralAngleIn ar n1 n2 =
     (let dotProduct = dotIn ar n1 n2;
          angle = fmul ar (facos ar (Math_min (Fin 1) (Math_max (Fin (- 1)) dotProduct)))
                    (fdiv ar (Fin 180) (fpi ar))
      in fsub ar (Fin 180) angle)"

definition estimatedRadiusIn :: "Arith \<Rightarrow> EdgeEntry \<Rightarrow> number \<Rightarrow> number" where
  "estimatedRadiusIn ar edge dihedralAngle =
     (let edgeLength = distanceToIn ar (fst (vertices edge)) (snd (vertices edge))
      in fdiv ar edgeLength
           (fmul ar (Fin 2)
              (fsin ar (fdiv ar (fmul ar (fsub ar (Fin 90) dihedralAngle) (fpi ar)) (Fin 360)))))"

text \<open>The variables that the \<open>forEach\<close> over the edge map updates.\<close>

record EdgeLoop =
  sharpEdgesL :: nat
  sharpEdgeAnglesL :: "number list"
  tJunctionCountL :: nat
  minCurvatureRadiusL :: number

definition edgeStepIn :: "Arith \<Rightarrow> Vector3 list \<Rightarrow> string \<times> EdgeEntry \<Rightarrow> EdgeLoop \<Rightarrow> error + EdgeLoop" where
  "edgeStepIn ar faceNormals ke s =
     (let edge = snd ke;
          s1 = (if 3 \<le> length (faces edge) then s\<lparr>tJunctionCountL := tJunctionCountL s + 1\<rparr>
                else s)
      in if length (faces edge) = 2
         then bindR (nthNormal faceNormals (faces edge ! 0)) (\<lambda>n1.
              bindR (nthNormal faceNormals (faces edge ! 1)) (\<lambda>n2.
              let dihedralAngle = dihedralAngleIn ar n1 n2
              in if dihedralAngle < Fin 90
                 then Inr (s1\<lparr>sharpEdgesL := sharpEdgesL s1 + 1,
                              sharpEdgeAnglesL := sharpEdgeAnglesL s1 @ [dihedralAngle],
                              minCurvatureRadiusL :=
                                Math_min (minCurvatureRadiusL s1)
                                  (estimatedRadiusIn ar edge dihedralAngle)\<rparr>)
                 else Inr s1))
         else Inr s1)"

definition analyzeEdgeMapIn :: "Arith \<Rightarrow> Vector3 list \<Rightarrow> EdgeMap \<Rightarrow> error + EdgeAnalysis" where
  "analyzeEdgeMapIn ar faceNormals edgeMap =
     bindR (foldR (edgeStepIn ar faceNormals) edgeMap
              \<lparr>sharpEdgesL = 0, sharpEdgeAnglesL = [], tJunctionCountL = 0,
               minCurvatureRadiusL = PInf\<rparr>) (\<lambda>s.
     Inr \<lparr>totalEdges = num (length edgeMap),
          sharpEdges = num (sharpEdgesL s),
          sharpEdgeAngles = sharpEdgeAnglesL s,
          estimatedMinCurvatureRadius =
            (if strictEq (minCurvatureRadiusL s) PInf then Fin 0 else minCurvatureRadiusL s),
          tJunctionCount = num (tJunctionCountL s)\<rparr>)"

definition analyzeEdgesIn :: "Arith \<Rightarrow> (real \<Rightarrow> string) \<Rightarrow> Vector3 list \<Rightarrow> Vector3 list \<Rightarrow> error + EdgeAnalysis" where
  "analyzeEdgesIn ar big positions faceNormals =
     bindR (buildEdgeMap big positions) (analyzeEdgeMapIn ar faceNormals)"

text \<open>
  The arithmetic of exact real numbers, which is the one of the section on numbers, and
  the analyzer in it. The entry point below calls this one.
\<close>

definition exactArith :: Arith where
  "exactArith = \<lparr>fadd = (+), fsub = (-), fmul = (*), fdiv = (/), fsqrt = Math_sqrt,
                  facos = Math_acos, fsin = Math_sin, fpi = Math_PI\<rparr>"

definition edgeStep :: "Vector3 list \<Rightarrow> string \<times> EdgeEntry \<Rightarrow> EdgeLoop \<Rightarrow> error + EdgeLoop" where
  "edgeStep = edgeStepIn exactArith"

definition analyzeEdges :: "(real \<Rightarrow> string) \<Rightarrow> Vector3 list \<Rightarrow> Vector3 list \<Rightarrow> error + EdgeAnalysis" where
  "analyzeEdges = analyzeEdgesIn exactArith"

section \<open>Cavity analyzer\<close>

definition countBoundaryEdges :: "EdgeMap \<Rightarrow> nat" where
  "countBoundaryEdges edgeMap = length (filter (\<lambda>ke. length (faces (snd ke)) = 1) edgeMap)"

definition Math_min3 :: "number \<Rightarrow> number \<Rightarrow> number \<Rightarrow> number" where
  "Math_min3 a b c = Math_min (Math_min a b) c"

definition centroidOf :: "Vector3 list \<Rightarrow> nat \<Rightarrow> Vector3" where
  "centroidOf positions i =
     divideScalar
       (addVectors
          (addVectors (fromBufferAttribute positions (i * 3))
             (fromBufferAttribute positions (i * 3 + 1)))
          (fromBufferAttribute positions (i * 3 + 2)))
       (Fin 3)"

definition concaveStep :: "Vector3 list \<Rightarrow> Vector3 list \<Rightarrow> Box3 \<Rightarrow> nat \<Rightarrow> nat \<Rightarrow> error + nat" where
  "concaveStep positions faceNormals box i concaveRegions =
     (let centroid = centroidOf positions i;
          boxCenter = getCenter box;
          toCenter = normalize (subVectors boxCenter centroid)
      in bindR (nthNormal faceNormals i) (\<lambda>n.
         Inr (if Fin 0.7 < dot n toCenter then concaveRegions + 1 else concaveRegions)))"

definition countConcaveRegions :: "Vector3 list \<Rightarrow> Vector3 list \<Rightarrow> Box3 \<Rightarrow> error + nat" where
  "countConcaveRegions positions faceNormals box =
     foldR (concaveStep positions faceNormals box) (triangleIndices positions) 0"

definition analyzeCavities ::
  "(real \<Rightarrow> string) \<Rightarrow> Vector3 list \<Rightarrow> Vector3 list \<Rightarrow> Box3 \<Rightarrow> error + CavityAnalysis" where
  "analyzeCavities big positions faceNormals box =
     bindR (buildEdgeMap big positions) (\<lambda>edgeMap.
     let boundaryEdges = countBoundaryEdges edgeMap
     in bindR (countConcaveRegions positions faceNormals box) (\<lambda>concaveRegions.
        let size = getSize box;
            estimatedHoleDepths =
              (if 0 < concaveRegions then [Math_min3 (vx size) (vy size) (vz size) * Fin 0.3]
               else [])
        in Inr \<lparr>potentialCavities = Math_floor (num concaveRegions / Fin 10),
                boundaryLoops = Math_floor (num boundaryEdges / Fin 3),
                estimatedHoleDepths = estimatedHoleDepths,
                blindHoleCount = Math_floor (num boundaryEdges / Fin 6),
                throughHoleCount = Math_floor (num boundaryEdges / Fin 12)\<rparr>))"

section \<open>Channel analyzer\<close>

definition tubularStep :: "Vector3 list \<Rightarrow> nat \<Rightarrow> nat \<Rightarrow> error + nat" where
  "tubularStep faceNormals i tubularRegions =
     bindR (nthNormal faceNormals i) (\<lambda>normal.
     let horizontalComponent = Math_sqrt (vx normal * vx normal + vy normal * vy normal)
     in Inr (if Fin 0.8 < horizontalComponent \<and> \<bar>vz normal\<bar> < Fin 0.3
             then tubularRegions + 1 else tubularRegions))"

definition countTubularRegions :: "Vector3 list \<Rightarrow> Vector3 list \<Rightarrow> error + nat" where
  "countTubularRegions positions faceNormals =
     foldR (tubularStep faceNormals)
       (forRange 10 (triangleCountOf positions) (length positions)) 0"

definition analyzeChannels :: "Vector3 list \<Rightarrow> Vector3 list \<Rightarrow> Box3 \<Rightarrow> error + ChannelAnalysis" where
  "analyzeChannels positions faceNormals box =
     (let size = getSize box;
          normalVariance = ([] :: number list)
      in bindR (countTubularRegions positions faceNormals) (\<lambda>tubularRegions.
         let estimatedDiameters =
               (if 5 < tubularRegions then [vx size * Fin 0.1, vy size * Fin 0.1] else []);
             estimatedDepths = (if 5 < tubularRegions then [vz size * Fin 0.5] else []);
             curvedTubes =
               (if 10 < tubularRegions \<and> 0 < length normalVariance then 1 else (0 :: nat));
             straightTubes =
               (if 10 < tubularRegions \<and> \<not> 0 < length normalVariance then 1 else (0 :: nat))
         in Inr \<lparr>potentialChannels = Math_floor (num tubularRegions / Fin 20),
                 estimatedDiameters = estimatedDiameters,
                 estimatedDepths = estimatedDepths,
                 straightChannels = num straightTubes,
                 curvedChannels = num curvedTubes\<rparr>))"

section \<open>Surface feature analyzer\<close>

record HeightLoop =
  prevHeightL :: number
  heightVariationsL :: "number list"
  reliefCountL :: nat
  engravingCountL :: nat
  maxHeightL :: number

definition heightStep :: "Vector3 list \<Rightarrow> nat \<Rightarrow> HeightLoop \<Rightarrow> HeightLoop" where
  "heightStep positions i s =
     (let v = fromBufferAttribute positions (i * 3);
          height = vz v;
          variation = \<bar>height - prevHeightL s\<bar>;
          s1 = (if Fin 0.1 < variation
                then (let s2 = s\<lparr>heightVariationsL := heightVariationsL s @ [variation]\<rparr>
                      in if minCharacterHeight GUIDELINES * Fin 0.5 < variation
                         then (if prevHeightL s < height
                               then s2\<lparr>reliefCountL := reliefCountL s2 + 1\<rparr>
                               else s2\<lparr>engravingCountL := engravingCountL s2 + 1\<rparr>)
                              \<lparr>maxHeightL := Math_max (maxHeightL s) variation\<rparr>
                         else s2)
                else s)
      in s1\<lparr>prevHeightL := height\<rparr>)"

definition widthStep :: "Vector3 list \<Rightarrow> nat \<Rightarrow> number \<Rightarrow> number" where
  "widthStep positions i minWidth =
     (let v0 = fromBufferAttribute positions (i * 3);
          v1 = fromBufferAttribute positions (i * 3 + 1);
          edgeLength = distanceTo v0 v1
      in if Fin 0.01 < edgeLength then Math_min minWidth edgeLength else minWidth)"

definition analyzeSurfaceFeatures :: "Vector3 list \<Rightarrow> Box3 \<Rightarrow> SurfaceFeatureAnalysis" where
  "analyzeSurfaceFeatures positions box =
     (let s = fold (heightStep positions)
                (forRange 3 (Math_min (triangleCountOf positions) (Fin 1000)) (length positions))
                \<lparr>prevHeightL = Fin 0, heightVariationsL = [], reliefCountL = 0,
                 engravingCountL = 0, maxHeightL = Fin 0\<rparr>;
          minWidth = fold (widthStep positions)
                (forRange 1 (Math_min (triangleCountOf positions) (Fin 500)) (length positions))
                PInf
      in \<lparr>heightVariations = heightVariationsL s,
          potentialReliefs = Math_floor (num (reliefCountL s) / Fin 5),
          potentialEngravings = Math_floor (num (engravingCountL s) / Fin 5),
          minFeatureWidth = (if strictEq minWidth PInf then Fin 0 else minWidth),
          maxFeatureHeight = maxHeightL s\<rparr>)"

section \<open>Wall thickness sampler\<close>

text \<open>
  A number used as an array index: a non-negative integer is an index, any other value
  names no element.
\<close>

fun asIndex :: "number \<Rightarrow> nat option" where
  "asIndex (Fin a) = (if 0 \<le> a \<and> of_int \<lfloor>a\<rfloor> = a then Some (nat \<lfloor>a\<rfloor>) else None)"
| "asIndex _ = None"

definition oppositeStep ::
  "Vector3 list \<Rightarrow> Vector3 list \<Rightarrow> nat \<Rightarrow> Vector3 \<Rightarrow> Vector3 \<Rightarrow> nat \<Rightarrow> number \<Rightarrow> error + number" where
  "oppositeStep positions faceNormals triIndex normal centroid i minDist =
     (if i = triIndex then Inr minDist
      else bindR (nthNormal faceNormals i) (\<lambda>checkNormal.
           if Fin (- 0.5) < dot normal checkNormal then Inr minDist
           else let checkCentroid = centroidOf positions i;
                    dist = distanceTo centroid checkCentroid
                in Inr (if dist < minDist \<and> Fin 0.1 < dist then dist else minDist)))"

text \<open>
  One sample. \<open>Math.random()\<close> is the parameter \<open>rnd\<close>: its value at \<open>s\<close> is the draw of
  the sample \<open>s\<close>. The centroid of the drawn triangle is computed before its normal is
  read; it raises nothing, and the model reads the normal first. The vectors \<open>rayOrigin\<close>
  and \<open>rayDir\<close> are computed from the normal and never read.
\<close>

definition sampleStep ::
  "(nat \<Rightarrow> real) \<Rightarrow> Vector3 list \<Rightarrow> Vector3 list \<Rightarrow> nat \<Rightarrow> number list \<Rightarrow> error + number list" where
  "sampleStep rnd positions faceNormals s samples' =
     (case asIndex (Math_floor (Fin (rnd s) * triangleCountOf positions)) of
        None \<Rightarrow> Inl TypeError
      | Some triIndex \<Rightarrow>
          bindR (nthNormal faceNormals triIndex) (\<lambda>normal.
          let centroid = centroidOf positions triIndex
          in bindR (foldR (oppositeStep positions faceNormals triIndex normal centroid)
                      (forRange 5 (triangleCountOf positions) (length positions)) PInf)
               (\<lambda>minDist.
                  Inr (if minDist < PInf \<and> Fin 0 < minDist then samples' @ [minDist]
                       else samples'))))"

definition analyzeWallThickness ::
  "(nat \<Rightarrow> real) \<Rightarrow> Vector3 list \<Rightarrow> Vector3 list \<Rightarrow> Box3 \<Rightarrow> error + WallThicknessAnalysis" where
  "analyzeWallThickness rnd positions faceNormals box =
     (let sampleCount = Math_min (Fin 100) (Math_floor (triangleCountOf positions / Fin 10))
      in bindR (foldR (sampleStep rnd positions faceNormals) (forRange 1 sampleCount 100) [])
           (\<lambda>samples0.
              let size = getSize box;
                  samples1 = (if length samples0 = 0
                              then samples0 @ [Math_min3 (vx size) (vy size) (vz size) * Fin 0.1]
                              else samples0);
                  sorted' = sortBy (\<lambda>a b. a - b) samples1
              in Inr \<lparr>minThickness = nthOrZero sorted' 0,
                      maxThickness = nthOrZero sorted' (length sorted' - 1),
                      avgThickness = foldl (+) (Fin 0) sorted' / num (length sorted'),
                      samples = sorted',
                      thinAreas =
                        num (length (filter (\<lambda>s. s < wallThicknessMin GUIDELINES) sorted'))\<rparr>))"

section \<open>Geometric complexity analyzer\<close>

text \<open>
  The key of a bin is the text of three rounded numbers, separated by commas. Two such
  texts are equal exactly when the three numbers are, so the key is the triple.
\<close>

type_synonym NormalBins = "((number \<times> number \<times> number) \<times> (number \<times> Vector3)) list"

fun addBin :: "number \<times> number \<times> number \<Rightarrow> Vector3 \<Rightarrow> number \<Rightarrow> NormalBins \<Rightarrow> NormalBins" where
  "addBin key normal triArea [] = [(key, (Fin 0 + triArea, normal))]"
| "addBin key normal triArea ((k, b) # bins) =
     (if k = key then (k, (fst b + triArea, snd b)) # bins
      else (k, b) # addBin key normal triArea bins)"

definition binStep :: "Vector3 list \<Rightarrow> Vector3 list \<Rightarrow> nat \<Rightarrow> NormalBins \<Rightarrow> error + NormalBins" where
  "binStep positions faceNormals i bins =
     bindR (nthNormal faceNormals i) (\<lambda>normal.
     let binKey = (Math_round (vx normal * Fin 10), Math_round (vy normal * Fin 10),
                   Math_round (vz normal * Fin 10));
         v0 = fromBufferAttribute positions (i * 3);
         v1 = fromBufferAttribute positions (i * 3 + 1);
         v2 = fromBufferAttribute positions (i * 3 + 2);
         edge1 = subVectors v1 v0;
         edge2 = subVectors v2 v0;
         triArea = lengthV (crossVectors edge1 edge2) * Fin 0.5
     in Inr (addBin binKey normal triArea bins))"

record FlatBase =
  flatBaseAreaL :: number
  flatBaseNormalL :: "Vector3 option"
  hasFlatBaseL :: bool

definition flatBaseStep :: "(number \<times> number \<times> number) \<times> (number \<times> Vector3) \<Rightarrow> FlatBase \<Rightarrow> FlatBase" where
  "flatBaseStep kb s =
     (let area = fst (snd kb); normal = snd (snd kb)
      in if flatBaseAreaL s < area \<and> (vy normal < Fin (- 0.9) \<or> vz normal < Fin (- 0.9))
         then \<lparr>flatBaseAreaL = area, flatBaseNormalL = Some normal, hasFlatBaseL = True\<rparr>
         else s)"

definition curvatureStep :: "Vector3 list \<Rightarrow> nat \<Rightarrow> number \<times> number \<Rightarrow> number \<times> number" where
  "curvatureStep faceNormals i acc =
     (let angleDiff = Fin 1 - dot (faceNormals ! i) (faceNormals ! (i - 1))
      in (fst acc + angleDiff, snd acc + angleDiff * angleDiff))"

definition analyzeGeometricComplexity ::
  "(real \<Rightarrow> string) \<Rightarrow> Vector3 list \<Rightarrow> Vector3 list \<Rightarrow> Box3 \<Rightarrow> number \<Rightarrow> error + GeometricComplexity" where
  "analyzeGeometricComplexity big positions faceNormals box area =
     (let density = triangleCountOf positions / area;
          curvSums = fold (curvatureStep faceNormals) [1..<length faceNormals] (Fin 0, Fin 0);
          avgCurvature = fst curvSums / num (length faceNormals);
          curvatureVariance = snd curvSums / num (length faceNormals) - avgCurvature * avgCurvature
      in bindR (foldR (binStep positions faceNormals) (triangleIndices positions) [])
           (\<lambda>normalBins.
              let base = fold flatBaseStep normalBins
                           \<lparr>flatBaseAreaL = Fin 0, flatBaseNormalL = None, hasFlatBaseL = False\<rparr>
              in bindR (buildEdgeMap big positions) (\<lambda>edgeMap.
                 let boundaryEdges = countBoundaryEdges edgeMap;
                     estimatedGenus =
                       Math_max (Fin 0) (Math_floor (num boundaryEdges / Fin 6) - Fin 1)
                 in Inr \<lparr>triangleDensity = density,
                         surfaceCurvatureVariance = curvatureVariance,
                         componentCount = Fin 1,
                         genus = estimatedGenus,
                         hasFlatBase = hasFlatBaseL base,
                         flatBaseArea = flatBaseAreaL base,
                         flatBaseNormal = flatBaseNormalL base\<rparr>)))"

section \<open>The analysis entry point\<close>

record BulkLoop =
  volumeL :: number
  surfaceAreaL :: number
  normalSumL :: Vector3

definition bulkStep :: "Vector3 list \<Rightarrow> nat \<Rightarrow> BulkLoop \<Rightarrow> BulkLoop" where
  "bulkStep positions i s =
     (let pA = fromBufferAttribute positions i;
          pB = fromBufferAttribute positions (i + 1);
          pC = fromBufferAttribute positions (i + 2);
          cb = subVectors pC pB;
          ab = subVectors pA pB;
          cross = crossVectors cb ab
      in \<lparr>volumeL = volumeL s + dot pA (crossVectors pB pC) / Fin 6,
          surfaceAreaL = surfaceAreaL s + lengthV cross * Fin 0.5,
          normalSumL = addVectors (normalSumL s) (normalize cross)\<rparr>)"

definition bulkLoop :: "Vector3 list \<Rightarrow> BulkLoop" where
  "bulkLoop positions =
     fold (bulkStep positions) (forRange 3 (num (length positions)) (length positions))
       \<lparr>volumeL = Fin 0, surfaceAreaL = Fin 0,
        normalSumL = vec (Fin 0) (Fin 0) (Fin 0)\<rparr>"

text \<open>
  \<open>analyzeSTLGeometry\<close>. The geometry is the list of its points, the \<open>position\<close> attribute;
  \<open>big\<close> is the printer of large magnitudes that \<open>toFixed\<close> needs and \<open>rnd\<close> the source of
  \<open>Math.random\<close>. The steps run in the order of the source, and the first error of a
  step ends the analysis: no bundle is built.
\<close>

definition analyzeSTLGeometry ::
  "(real \<Rightarrow> string) \<Rightarrow> (nat \<Rightarrow> real) \<Rightarrow> Vector3 list \<Rightarrow> error + ModelData" where
  "analyzeSTLGeometry big rnd positions =
     (let box = computeBoundingBox positions;
          size = getSize box;
          count = triangleCountOf positions;
          bulk = bulkLoop positions;
          volume' = \<bar>volumeL bulk\<bar>;
          normalSum = normalSumL bulk;
          distribution = vec (\<bar>vx normalSum\<bar> / count) (\<bar>vy normalSum\<bar> / count)
                             (\<bar>vz normalSum\<bar> / count);
          faceNormals = calculateFaceNormals positions
      in bindR (buildEdgeMap big positions) (\<lambda>edgeMap.
         bindR (analyzeEdges big positions faceNormals) (\<lambda>edges.
         bindR (analyzeCavities big positions faceNormals box) (\<lambda>cavities.
         bindR (analyzeChannels positions faceNormals box) (\<lambda>channels.
         let features = analyzeSurfaceFeatures positions box
         in bindR (analyzeWallThickness rnd positions faceNormals box) (\<lambda>walls.
            bindR (analyzeGeometricComplexity big positions faceNormals box (surfaceAreaL bulk))
              (\<lambda>complexity.
            Inr \<lparr>geometry = positions,
                 dimensions = \<lparr>dimLength = vx size, dimWidth = vy size, dimHeight = vz size\<rparr>,
                 volume = volume',
                 surfaceArea = surfaceAreaL bulk,
                 triangleCount = count,
                 vertexCount = num (length positions),
                 edgeCount = num (length edgeMap),
                 boundingBox = box,
                 normalDistribution = distribution,
                 edgeAnalysis = edges,
                 cavityAnalysis = cavities,
                 channelAnalysis = channels,
                 surfaceFeatures = features,
                 wallThickness = walls,
                 geometricComplexity = complexity\<rparr>)))))))"

section \<open>The validation engine\<close>

text \<open>
  One step of the \<open>forEach\<close> over the estimated channel diameters: whether the channel
  with diameter \<open>d\<close> at index \<open>i\<close> breaks a depth limit.
\<close>

definition channelViolates :: "number list \<Rightarrow> nat \<Rightarrow> number \<Rightarrow> bool" where
  "channelViolates depths i d =
     (let depth = nthOrZero depths i
      in if Fin 1 \<le> d \<and> d \<le> Fin 3 \<and> Fin 10 < depth then True
         else if Fin 3 < d \<and> d \<le> Fin 5 \<and> Fin 30 < depth then True
         else False)"

definition channelCheck :: "ChannelAnalysis \<Rightarrow> bool" where
  "channelCheck c =
     (if Fin 0 < potentialChannels c
      then fold (\<lambda>(i, d) ok. if channelViolates (estimatedDepths c) i d then False else ok)
             (zip [0..<length (estimatedDiameters c)] (estimatedDiameters c)) True
      else True)"

definition validateModel :: "ModelData \<Rightarrow> ValidationResult list" where
  "validateModel data =
     (let length' = dimLength (dimensions data);
          width = dimWidth (dimensions data);
          height = dimHeight (dimensions data);
          withinDimensions =
            (length' \<le> dimLength (maxDimensions GUIDELINES) \<and>
             width \<le> dimWidth (maxDimensions GUIDELINES) \<and>
             height \<le> dimHeight (maxDimensions GUIDELINES));
          dims = sortBy (\<lambda>a b. b - a) [length', width, height];
          aspectRatio = (dims ! 0) / (dims ! 2);
          aspectOk = (aspectRatio \<le> aspectRatioMax GUIDELINES);
          aspectRecommended = (aspectRatio \<le> aspectRatioRecommended GUIDELINES);
          ea = edgeAnalysis data;
          edgeOk =
            (strictEq (sharpEdges ea) (Fin 0) \<and>
             (strictEq (estimatedMinCurvatureRadius ea) (Fin 0) \<or>
              minCurvatureRadius GUIDELINES \<le> estimatedMinCurvatureRadius ea));
          tJunctionOk =
            (strictEq (tJunctionCount ea) (Fin 0) \<or>
             minTJunctionRadius GUIDELINES \<le> estimatedMinCurvatureRadius ea);
          ca = cavityAnalysis data;
          cavityOk =
            (strictEq (potentialCavities ca) (Fin 0) \<or>
             (length (estimatedHoleDepths ca) = 0 \<or>
              list_all (\<lambda>d. minCavityWidth GUIDELINES \<le> d) (estimatedHoleDepths ca)));
          channelOk = channelCheck (channelAnalysis data);
          featureOk =
            (strictEq (minFeatureWidth (surfaceFeatures data)) (Fin 0) \<or>
             minLineWidth GUIDELINES \<le> minFeatureWidth (surfaceFeatures data));
          wt = wallThickness data;
          wallOk =
            (wallThicknessMin GUIDELINES \<le> minThickness wt \<and>
             maxThickness wt \<le> wallThicknessMax GUIDELINES);
          flat = hasFlatBase (geometricComplexity data);
          hollowOk = (hollowWallThickness GUIDELINES \<le> minThickness wt)
      in [\<lparr>name = ''Dimensioni Massime'', passed = withinDimensions,
            severity = Some (if withinDimensions then Info else Error)\<rparr>,
          \<lparr>name = ''Tolleranze Applicabili'', passed = True, severity = Some Info\<rparr>,
          \<lparr>name = ''Aspect Ratio'', passed = aspectOk,
            severity = Some (if aspectOk then (if aspectRecommended then Info else Warning)
                             else Error)\<rparr>,
          \<lparr>name = ''Spigoli e Raccordi'', passed = (edgeOk \<and> tJunctionOk),
            severity = Some (if edgeOk \<and> tJunctionOk then Info else Warning)\<rparr>,
          \<lparr>name = ''Cavit'' @ [CHR 0xE0] @ '' e Fori Ciechi'', passed = cavityOk,
            severity = Some (if cavityOk then Info else Warning)\<rparr>,
          \<lparr>name = ''Canali Aperti'', passed = channelOk,
            severity = Some (if channelOk then Info else Warning)\<rparr>,
          \<lparr>name = ''Rilievi e Incisioni'', passed = featureOk,
            severity = Some (if featureOk then Info else Warning)\<rparr>,
          \<lparr>name = ''Spessore Parete'', passed = wallOk,
            severity = Some (if wallOk then Info
                             else if minThickness wt < wallThicknessMin GUIDELINES then Error
                             else Warning)\<rparr>,
          \<lparr>name = ''Base di Appoggio'', passed = flat,
            severity = Some (if flat then Info else Warning)\<rparr>,
          \<lparr>name = ''Filettature'', passed = True, severity = Some Info\<rparr>,
          \<lparr>name = ''Oggetti Cavi'', passed = hollowOk,
            severity = Some (if hollowOk then Info else Warning)\<rparr>,
          \<lparr>name = ''Parti Concatenate'', passed = True, severity = Some Info\<rparr>])"

section \<open>Notions used in the statements\<close>

subsection \<open>Defined and finite vectors\<close>

text \<open>
  A vector read inside the buffer has defined coordinates; a finite vector has three
  real coordinates. \<open>realOf\<close> reads the real value of a finite number.
\<close>

definition definedV :: "Vector3 \<Rightarrow> bool" where
  "definedV v = (vx v \<noteq> Undefined \<and> vy v \<noteq> Undefined \<and> vz v \<noteq> Undefined)"

fun isFin :: "number \<Rightarrow> bool" where
  "isFin (Fin a) = True"
| "isFin _ = False"

definition finiteV :: "Vector3 \<Rightarrow> bool" where
  "finiteV v = (isFin (vx v) \<and> isFin (vy v) \<and> isFin (vz v))"

definition zeroV :: Vector3 where
  "zeroV = vec (Fin 0) (Fin 0) (Fin 0)"

fun realOf :: "number \<Rightarrow> real" where
  "realOf (Fin a) = a"
| "realOf _ = 0"

subsection \<open>The edges of a mesh\<close>

text \<open>
  The edges of all triangles in the order in which the adjacency builder meets them,
  each with the index of its triangle; the faces the map stores under a key; an entry
  whose faces and end points come from a set of such edges.
\<close>

definition facesAt :: "EdgeMap \<Rightarrow> string \<Rightarrow> nat list" where
  "facesAt m k = (case map_of m k of None \<Rightarrow> [] | Some e \<Rightarrow> faces e)"

definition allEdges :: "Vector3 list \<Rightarrow> (nat \<times> Vector3 \<times> Vector3) list" where
  "allEdges positions =
     concat (map (\<lambda>i. map (Pair i) (triangleEdges positions i)) (triangleIndices positions))"

definition hasKey :: "(real \<Rightarrow> string) \<Rightarrow> string \<Rightarrow> nat \<times> Vector3 \<times> Vector3 \<Rightarrow> bool" where
  "hasKey big k p = (makeEdgeKey big (fst (snd p)) (snd (snd p)) = Inr k)"

definition entryWithin :: "(nat \<times> Vector3 \<times> Vector3) set \<Rightarrow> EdgeEntry \<Rightarrow> bool" where
  "entryWithin S e = (set (faces e) \<subseteq> fst ` S \<and> vertices e \<in> snd ` S)"

subsection \<open>Manifold and sharp edges\<close>

text \<open>
  The entries with exactly two incident faces; in an arithmetic, the dihedral angle the
  analyzer computes for such an entry, the entries it counts as sharp, the length of an
  edge and the radius the analyzer estimates. \<open>edgeAfterIn\<close> is the state of the loop
  after one entry.
\<close>

definition manifoldEdges :: "EdgeMap \<Rightarrow> EdgeMap" where
  "manifoldEdges edgeMap = filter (\<lambda>ke. length (faces (snd ke)) = 2) edgeMap"

definition edgeDihedralIn :: "Arith \<Rightarrow> Vector3 list \<Rightarrow> string \<times> EdgeEntry \<Rightarrow> number" where
  "edgeDihedralIn ar faceNormals ke =
     dihedralAngleIn ar (faceNormals ! (faces (snd ke) ! 0)) (faceNormals ! (faces (snd ke) ! 1))"

definition sharpEdgeListIn :: "Arith \<Rightarrow> Vector3 list \<Rightarrow> EdgeMap \<Rightarrow> EdgeMap" where
  "sharpEdgeListIn ar faceNormals edgeMap =
     filter (\<lambda>ke. edgeDihedralIn ar faceNormals ke < Fin 90) (manifoldEdges edgeMap)"

definition edgeRadiusIn :: "Arith \<Rightarrow> Vector3 list \<Rightarrow> string \<times> EdgeEntry \<Rightarrow> number" where
  "edgeRadiusIn ar faceNormals ke = estimatedRadiusIn ar (snd ke) (edgeDihedralIn ar faceNormals ke)"

definition edgeLengthIn :: "Arith \<Rightarrow> string \<times> EdgeEntry \<Rightarrow> number" where
  "edgeLengthIn ar ke = distanceToIn ar (fst (vertices (snd ke))) (snd (vertices (snd ke)))"

definition edgeAfterIn :: "Arith \<Rightarrow> Vector3 list \<Rightarrow> string \<times> EdgeEntry \<Rightarrow> EdgeLoop \<Rightarrow> EdgeLoop" where
  "edgeAfterIn ar ns ke s =
     \<lparr>sharpEdgesL = sharpEdgesL s + length (sharpEdgeListIn ar ns [ke]),
      sharpEdgeAnglesL = sharpEdgeAnglesL s @ map (edgeDihedralIn ar ns) (sharpEdgeListIn ar ns [ke]),
      tJunctionCountL = tJunctionCountL s + length (filter (\<lambda>ke. 3 \<le> length (faces (snd ke))) [ke]),
      minCurvatureRadiusL =
        foldl Math_min (minCurvatureRadiusL s) (map (edgeRadiusIn ar ns) (sharpEdgeListIn ar ns [ke]))\<rparr>"

subsection \<open>The normal-direction distribution\<close>

text \<open>
  The unit normal that the bulk loop adds for the triangle \<open>t\<close>, the distribution that the
  entry point reports, and the sum over all triangles of one component of the face
  normals.
\<close>

definition bulkNormal :: "Vector3 list \<Rightarrow> nat \<Rightarrow> Vector3" where
  "bulkNormal positions t =
     normalize (crossVectors
       (subVectors (fromBufferAttribute positions (t * 3 + 2))
          (fromBufferAttribute positions (t * 3 + 1)))
       (subVectors (fromBufferAttribute positions (t * 3))
          (fromBufferAttribute positions (t * 3 + 1))))"

definition distributionOf :: "Vector3 list \<Rightarrow> Vector3" where
  "distributionOf positions =
     (let normalSum = normalSumL (bulkLoop positions); count = triangleCountOf positions
      in vec (\<bar>vx normalSum\<bar> / count) (\<bar>vy normalSum\<bar> / count) (\<bar>vz normalSum\<bar> / count))"

definition normalComponentSum :: "(Vector3 \<Rightarrow> number) \<Rightarrow> Vector3 list \<Rightarrow> real" where
  "normalComponentSum component positions =
     sum_list (map (\<lambda>t. realOf (component (faceNormal positions t))) (triangleIndices positions))"

text \<open>
  The formula of the spec: the mean over all triangles of the absolute value of one
  component of the unit normal.
\<close>

definition specNormalMean :: "(Vector3 \<Rightarrow> number) \<Rightarrow> Vector3 list \<Rightarrow> real" where
  "specNormalMean component positions =
     sum_list (map (\<lambda>t. \<bar>realOf (component (faceNormal positions t))\<bar>) (triangleIndices positions))
       / real (length (triangleIndices positions))"

section \<open>Sample inputs\<close>

text \<open>
  A printer for large magnitudes and a random source that always draws 0, for the
  runs on sample inputs.
\<close>

definition plainBig :: "real \<Rightarrow> string" where
  "plainBig a = ''1e+21''"

definition zeroRandom :: "nat \<Rightarrow> real" where
  "zeroRandom s = 0"

text \<open>
  The metrics of a block of 60 x 10 x 10 mm with twelve triangles, as an input of the
  validation engine; the list of points, which the engine does not read, is left empty.
\<close>

definition exampleBlock :: ModelData where
  "exampleBlock =
     \<lparr>geometry = [],
      dimensions = \<lparr>dimLength = Fin 60, dimWidth = Fin 10, dimHeight = Fin 10\<rparr>,
      volume = Fin 6000,
      surfaceArea = Fin 2600,
      triangleCount = Fin 12,
      vertexCount = Fin 36,
      edgeCount = Fin 18,
      boundingBox = \<lparr>bmin = vec (Fin 0) (Fin 0) (Fin 0), bmax = vec (Fin 60) (Fin 10) (Fin 10)\<rparr>,
      normalDistribution = vec (Fin 0) (Fin 0) (Fin 0),
      edgeAnalysis =
        \<lparr>totalEdges = Fin 18, sharpEdges = Fin 0, sharpEdgeAngles = [],
         estimatedMinCurvatureRadius = Fin 0, tJunctionCount = Fin 0\<rparr>,
      cavityAnalysis =
        \<lparr>potentialCavities = Fin 0, boundaryLoops = Fin 0, estimatedHoleDepths = [],
         blindHoleCount = Fin 0, throughHoleCount = Fin 0\<rparr>,
      channelAnalysis =
        \<lparr>potentialChannels = Fin 0, estimatedDiameters = [], estimatedDepths = [],
         straightChannels = Fin 0, curvedChannels = Fin 0\<rparr>,
      surfaceFeatures =
        \<lparr>heightVariations = [], potentialReliefs = Fin 0, potentialEngravings = Fin 0,
         minFeatureWidth = Fin 10, maxFeatureHeight = Fin 0\<rparr>,
      wallThickness =
        \<lparr>minThickness = Fin 1, maxThickness = Fin 1, avgThickness = Fin 1,
         samples = [Fin 1], thinAreas = Fin 0\<rparr>,
      geometricComplexity =
        \<lparr>triangleDensity = Fin (12 / 2600), surfaceCurvatureVariance = Fin 0,
         componentCount = Fin 1, genus = Fin 0, hasFlatBase = True,
         flatBaseArea = Fin 600, flatBaseNormal = Some (vec (Fin 0) (Fin 0) (Fin (- 1)))\<rparr>\<rparr>"

text \<open>
  Four points; two triangles that share the edge from \<open>ptA\<close> to \<open>ptB\<close> and traverse it in
  opposite orders, with opposite normals; the same triangle twice with opposite
  winding; a sequence of four points.
\<close>

definition ptA :: Vector3 where "ptA = vec (Fin 0) (Fin 0) (Fin 0)"

definition ptB :: Vector3 where "ptB = vec (Fin 1) (Fin 0) (Fin 0)"

definition ptC :: Vector3 where "ptC = vec (Fin 0) (Fin 1) (Fin 0)"

definition ptD :: Vector3 where "ptD = vec (Fin 0) (Fin 0) (Fin 1)"

definition twoTriangles :: "Vector3 list" where
  "twoTriangles = [ptA, ptB, ptC, ptB, ptA, ptD]"

definition upNormal :: Vector3 where
  "upNormal = vec (Fin 0) (Fin 0) (Fin 1)"

definition downNormal :: Vector3 where
  "downNormal = vec (Fin 0) (Fin 0) (Fin (- 1))"

definition twoNormals :: "Vector3 list" where
  "twoNormals = [upNormal, downNormal]"

definition flipSoup :: "Vector3 list" where
  "flipSoup = [ptA, ptB, ptC, ptA, ptC, ptB]"

definition fourPoints :: "Vector3 list" where
  "fourPoints = [ptA, ptB, ptC, ptD]"

text \<open>
  101 triangles whose normals are horizontal; ten triangles whose normals point to the
  centre of the box; a triangle of three collinear points, and an edge between a
  degenerate face and another one.
\<close>

definition tubeSoup :: "Vector3 list" where
  "tubeSoup = replicate 303 (vec (Fin 0) (Fin 0) (Fin 0))"

definition tubeNormals :: "Vector3 list" where
  "tubeNormals = replicate 101 (vec (Fin 1) (Fin 0) (Fin 0))"

definition tubeBox :: Box3 where
  "tubeBox = \<lparr>bmin = vec (Fin 0) (Fin 0) (Fin 0), bmax = vec (Fin 0) (Fin 0) (Fin 0)\<rparr>"

definition cavitySoup :: "Vector3 list" where
  "cavitySoup = replicate 30 (vec (Fin 0) (Fin 0) (Fin (- 1)))"

definition cavityNormals :: "Vector3 list" where
  "cavityNormals = replicate 10 (vec (Fin 0) (Fin 0) (Fin 1))"

definition cavityBox :: Box3 where
  "cavityBox = \<lparr>bmin = vec (Fin (- 1)) (Fin (- 1)) (Fin (- 1)), bmax = vec (Fin 1) (Fin 1) (Fin 1)\<rparr>"

text \<open>
  One triangle below the centre of that box, and its unit normal, which points to the
  centre.
\<close>

definition dentSoup :: "Vector3 list" where
  "dentSoup = [vec (Fin 1) (Fin 0) (Fin (- 1)), vec (Fin (- 1)) (Fin 1) (Fin (- 1)),
               vec (Fin 0) (Fin (- 1)) (Fin (- 1))]"

definition dentNormals :: "Vector3 list" where
  "dentNormals = [vec (Fin 0) (Fin 0) (Fin 1)]"

definition lineSoup :: "Vector3 list" where
  "lineSoup = [vec (Fin 0) (Fin 0) (Fin 0), vec (Fin 1) (Fin 0) (Fin 0), vec (Fin 2) (Fin 0) (Fin 0)]"

definition lineEdge :: EdgeEntry where
  "lineEdge = \<lparr>faces = [0, 1], vertices = (vec (Fin 0) (Fin 0) (Fin 0), vec (Fin 1) (Fin 0) (Fin 0))\<rparr>"

definition edgeLoopStart :: EdgeLoop where
  "edgeLoopStart =
     \<lparr>sharpEdgesL = 0, sharpEdgeAnglesL = [], tJunctionCountL = 0,
      minCurvatureRadiusL = PInf\<rparr>"

section \<open>Auxiliary lemmas\<close>

lemma bindR_Inr_iff: "bindR m f = Inr r \<longleftrightarrow> (\<exists>v. m = Inr v \<and> f v = Inr r)"
  by (cases m) auto

lemma in_triangle_bound: "num i < triangleCountOf positions \<longleftrightarrow> 3 * i < length positions"
  by (auto simp: triangleCountOf_def num_def)

lemma forRange_set: "i \<in> set (forRange step bound limit) \<longleftrightarrow> i < limit \<and> i mod step = 0 \<and> num i < bound"
  by (auto simp: forRange_def)

lemma filter_less_upt: "filter (\<lambda>i. i < m) [0..<n] = [0..<min m n]"
  by (induction n) (auto simp: min_def le_Suc_eq)

lemma triangleIndices_upt: "triangleIndices positions = [0..<(length positions + 2) div 3]"
proof -
  have "triangleIndices positions = filter (\<lambda>i. i < (length positions + 2) div 3) [0..<length positions]"
    unfolding triangleIndices_def forRange_def
    by (rule filter_cong) (auto simp: in_triangle_bound)
  also have "\<dots> = [0..<min ((length positions + 2) div 3) (length positions)]"
    by (rule filter_less_upt)
  also have "min ((length positions + 2) div 3) (length positions) = (length positions + 2) div 3"
    by (simp add: min_def) arith
  finally show ?thesis .
qed

lemma sampled_in_triangleIndices:
  "i \<in> set (forRange step (triangleCountOf positions) (length positions)) \<Longrightarrow>
   i < length (triangleIndices positions)"
  by (simp add: forRange_set in_triangle_bound triangleIndices_upt) arith

lemma foldR_total:
  "(\<And>a s. a \<in> set xs \<Longrightarrow> \<exists>s'. f a s = Inr s') \<Longrightarrow> \<exists>s'. foldR f xs s = Inr s'"
proof (induction xs arbitrary: s)
  case Nil
  show ?case by simp
next
  case (Cons a xs)
  from Cons.prems [of a s] obtain s1 where s1: "f a s = Inr s1" by auto
  from Cons.IH [of s1] Cons.prems obtain s2 where "foldR f xs s1 = Inr s2" by auto
  with s1 show ?case by simp
qed

lemma tubularStep_total:
  "i < length faceNormals \<Longrightarrow> \<exists>t'. tubularStep faceNormals i t = Inr t'"
  by (simp add: tubularStep_def nthNormal_def Let_def)

lemma countTubularRegions_total:
  assumes "length (triangleIndices positions) \<le> length faceNormals"
  shows "\<exists>t. countTubularRegions positions faceNormals = Inr t"
  unfolding countTubularRegions_def
proof (rule foldR_total)
  fix a and s :: nat assume "a \<in> set (forRange 10 (triangleCountOf positions) (length positions))"
  then have "a < length faceNormals" using assms sampled_in_triangleIndices [of a 10 positions] by simp
  then show "\<exists>s'. tubularStep faceNormals a s = Inr s'" by (rule tubularStep_total)
qed

lemma forRange_triangles:
  "forRange step (triangleCountOf positions) (length positions) =
   filter (\<lambda>i. i mod step = 0 \<and> 3 * i < length positions) [0..<length positions]"
  unfolding forRange_def by (rule filter_cong) (auto simp: in_triangle_bound)

lemma tube_samples: "length (forRange 10 (triangleCountOf tubeSoup) (length tubeSoup)) = 11"
  unfolding forRange_triangles by (simp add: tubeSoup_def) code_simp

lemma foldR_tubular_all:
  "(\<And>i. i \<in> set idxs \<Longrightarrow> tubularStep ns i = (\<lambda>t. Inr (t + 1))) \<Longrightarrow>
   foldR (tubularStep ns) idxs t = Inr (t + length idxs)"
  by (induction idxs arbitrary: t) auto

lemma tube_count: "countTubularRegions tubeSoup tubeNormals = Inr 11"
proof -
  have "foldR (tubularStep tubeNormals) (forRange 10 (triangleCountOf tubeSoup) (length tubeSoup)) 0
        = Inr (0 + length (forRange 10 (triangleCountOf tubeSoup) (length tubeSoup)))"
  proof (rule foldR_tubular_all)
    fix i assume "i \<in> set (forRange 10 (triangleCountOf tubeSoup) (length tubeSoup))"
    then have "i < 101" by (simp add: forRange_set in_triangle_bound tubeSoup_def)
    then show "tubularStep tubeNormals i = (\<lambda>t. Inr (t + 1))"
      by (simp add: tubularStep_def nthNormal_def tubeNormals_def vec_def fun_eq_iff)
  qed
  then show ?thesis by (simp add: countTubularRegions_def tube_samples)
qed

lemma error_eq: "((e :: error) = e') = True"
  by (cases e; cases e') simp

lemma makeEdgeKey_swap: "makeEdgeKey big a b = makeEdgeKey big b a"
proof (cases "pointKey big a")
  case (Inl e)
  then show ?thesis
    by (cases "pointKey big b") (simp_all add: makeEdgeKey_def error_eq)
next
  case a: (Inr ka)
  show ?thesis
  proof (cases "pointKey big b")
    case (Inl e)
    then show ?thesis by (simp add: makeEdgeKey_def a error_eq)
  next
    case (Inr kb)
    then show ?thesis using a by (auto simp: makeEdgeKey_def)
  qed
qed

lemma facesAt_pushFace:
  "facesAt (pushFace key vs i m) k = facesAt m k @ (if k = key then [i] else [])"
  by (induction key vs i m rule: pushFace.induct) (auto simp: facesAt_def)

lemma keys_pushFace: "fst ` set (pushFace key vs i m) = insert key (fst ` set m)"
  by (induction key vs i m rule: pushFace.induct) auto

lemma distinct_pushFace:
  "distinct (map fst m) \<Longrightarrow> distinct (map fst (pushFace key vs i m))"
proof (induction m)
  case Nil
  show ?case by simp
next
  case (Cons ke m)
  obtain k e where ke: "ke = (k, e)" by (cases ke)
  show ?case
  proof (cases "k = key")
    case True
    with Cons.prems ke show ?thesis by simp
  next
    case False
    from Cons.prems ke have "k \<notin> fst ` set m" and "distinct (map fst m)" by auto
    with False Cons.IH ke show ?thesis
      by (simp add: keys_pushFace [simplified])
  qed
qed

lemma foldR_append: "foldR f (xs @ ys) s = bindR (foldR f xs s) (foldR f ys)"
proof (induction xs arbitrary: s)
  case Nil
  show ?case by simp
next
  case (Cons a xs)
  then show ?case by (cases "f a s") simp_all
qed

lemma foldR_map: "foldR f (map g xs) s = foldR (\<lambda>x. f (g x)) xs s"
proof (induction xs arbitrary: s)
  case Nil
  show ?case by simp
next
  case (Cons a xs)
  then show ?case by (cases "f (g a) s") simp_all
qed

lemma foldR_concat:
  "foldR (\<lambda>i. foldR (g i) (h i)) idxs s =
   foldR (\<lambda>p. g (fst p) (snd p)) (concat (map (\<lambda>i. map (Pair i) (h i)) idxs)) s"
proof (induction idxs arbitrary: s)
  case Nil
  show ?case by simp
next
  case (Cons i idxs)
  have "foldR (\<lambda>p. g (fst p) (snd p)) (map (Pair i) (h i)) s = foldR (g i) (h i) s"
    by (simp add: foldR_map)
  with Cons show ?case
    by (cases "foldR (g i) (h i) s") (simp_all add: foldR_append)
qed

lemma buildEdgeMap_allEdges:
  "buildEdgeMap big positions =
   foldR (\<lambda>p. addEdge big (fst p) (snd p)) (allEdges positions) []"
  unfolding buildEdgeMap_def allEdges_def
  by (subst foldR_concat [symmetric]) (simp add: addTriangle_def [abs_def])

lemma foldR_addEdge:
  "foldR (\<lambda>p. addEdge big (fst p) (snd p)) es m0 = Inr m \<Longrightarrow>
   facesAt m k = facesAt m0 k @ map fst (filter (hasKey big k) es) \<and>
   (distinct (map fst m0) \<longrightarrow> distinct (map fst m))"
proof (induction es arbitrary: m0)
  case Nil
  then show ?case by simp
next
  case (Cons p es)
  from Cons.prems obtain m1 where m1: "addEdge big (fst p) (snd p) m0 = Inr m1"
    and rest: "foldR (\<lambda>p. addEdge big (fst p) (snd p)) es m1 = Inr m"
    by (auto simp: bindR_Inr_iff)
  from m1 obtain key where key: "makeEdgeKey big (fst (snd p)) (snd (snd p)) = Inr key"
    and m1_eq: "m1 = pushFace key (snd p) (fst p) m0"
    by (auto simp: addEdge_def bindR_Inr_iff)
  from Cons.IH [OF rest] have ih: "facesAt m k = facesAt m1 k @ map fst (filter (hasKey big k) es)"
    and dist: "distinct (map fst m1) \<longrightarrow> distinct (map fst m)" by auto
  have "facesAt m1 k = facesAt m0 k @ (if hasKey big k p then [fst p] else [])"
    using key by (auto simp: m1_eq facesAt_pushFace hasKey_def)
  with ih dist show ?case
    by (auto simp: m1_eq distinct_pushFace)
qed

lemma buildEdgeMap_faces:
  assumes "buildEdgeMap big positions = Inr m"
  shows "facesAt m k = map fst (filter (hasKey big k) (allEdges positions))"
    and "distinct (map fst m)"
  using foldR_addEdge [OF assms [unfolded buildEdgeMap_allEdges], of k]
  by (simp_all add: facesAt_def)

lemma natDigits_0: "natDigits 0 = ''0''"
  by (subst natDigits.simps) (simp add: digitChar_def)

lemma natDigits_10000: "natDigits 10000 = ''10000''"
  apply (subst natDigits.simps, simp)
  apply (subst natDigits.simps, simp)
  apply (subst natDigits.simps, simp)
  apply (subst natDigits.simps, simp)
  apply (subst natDigits.simps, simp add: digitChar_def)
  done

lemma replicate_num: "replicate (numeral k) c = c # replicate (pred_numeral k) c"
  by (simp add: numeral_eq_Suc)

lemma fixedDigits_0: "fixedDigits 4 0 = ''0.0000''"
  by (simp add: fixedDigits_def natDigits_0 replicate_num)

lemma fixedDigits_1: "fixedDigits 4 1 = ''1.0000''"
  by (simp add: fixedDigits_def Let_def natDigits_10000 replicate_num)

lemma sample_pointKeys: "pointKey plainBig ptA = Inr ''0.0000,0.0000,0.0000''"
  "pointKey plainBig ptB = Inr ''1.0000,0.0000,0.0000''"
  "pointKey plainBig ptC = Inr ''0.0000,1.0000,0.0000''"
  "pointKey plainBig ptD = Inr ''0.0000,0.0000,1.0000''"
  by (simp_all add: pointKey_def ptA_def ptB_def ptC_def ptD_def vec_def fixedDigits_0 fixedDigits_1)

lemma filter_unique_key:
  "distinct (map fst m) \<Longrightarrow> map_of m k = Some e \<Longrightarrow> filter (\<lambda>ke. fst ke = k) m = [(k, e)]"
proof (induction m)
  case Nil
  then show ?case by simp
next
  case (Cons p m)
  obtain k' e' where p: "p = (k', e')" by (cases p)
  show ?case
  proof (cases "k' = k")
    case True
    with Cons.prems p have "e' = e" and "k \<notin> fst ` set m" by auto
    then have "filter (\<lambda>ke. fst ke = k) m = []" by (auto simp: filter_empty_conv)
    with True p \<open>e' = e\<close> show ?thesis by simp
  next
    case False
    with Cons p show ?thesis by simp
  qed
qed

lemma concat_all_empty: "(\<And>t. t \<in> set xs \<Longrightarrow> g t = []) \<Longrightarrow> concat (map g xs) = []"
  by (induction xs) auto

lemma concat_two:
  assumes "i < j" "j < n" and empty: "\<And>t. t < n \<Longrightarrow> t \<noteq> i \<Longrightarrow> t \<noteq> j \<Longrightarrow> g t = []"
  shows "concat (map g [0..<n]) = g i @ g j"
proof -
  have upt_split: "[l..<u] = [l..<m] @ m # [Suc m..<u]" if "l \<le> m" "m < u" for l m u :: nat
    using that upt_add_eq_append [of l m "u - m"] by (simp add: upt_conv_Cons)
  have "[0..<n] = [0..<i] @ i # [Suc i..<n]"
    using assms(1,2) by (intro upt_split) auto
  also have "[Suc i..<n] = [Suc i..<j] @ j # [Suc j..<n]"
    using assms(1,2) by (intro upt_split) auto
  finally have split: "[0..<n] = [0..<i] @ [i] @ [Suc i..<j] @ [j] @ [Suc j..<n]"
    by simp
  have a: "concat (map g [0..<i]) = []" using assms(1,2) by (intro concat_all_empty empty) auto
  have b: "concat (map g [Suc i..<j]) = []" using assms(1,2) by (intro concat_all_empty empty) auto
  have c: "concat (map g [Suc j..<n]) = []" using assms(1,2) by (intro concat_all_empty empty) auto
  show ?thesis by (simp add: split a b c)
qed

lemma filter_triangleEdges:
  "a \<noteq> b \<Longrightarrow> (a, b) \<in> set (triangleEdges positions i) \<Longrightarrow>
   filter (\<lambda>e. e = (a, b)) (triangleEdges positions i) = [(a, b)]"
  by (auto simp: triangleEdges_def Let_def)

lemma shared_edge_faces:
  assumes build: "buildEdgeMap big positions = Inr m"
    and ij: "i < j" "j \<in> set (triangleIndices positions)"
    and ab: "a \<noteq> b"
    and ei: "(a, b) \<in> set (triangleEdges positions i)"
    and ej: "(b, a) \<in> set (triangleEdges positions j)"
    and only: "\<forall>t \<in> set (triangleIndices positions). \<forall>e \<in> set (triangleEdges positions t).
          makeEdgeKey big (fst e) (snd e) = makeEdgeKey big a b \<longrightarrow>
          (t = i \<and> e = (a, b)) \<or> (t = j \<and> e = (b, a))"
  shows "\<exists>k e. makeEdgeKey big a b = Inr k \<and> filter (\<lambda>ke. fst ke = k) m = [(k, e)] \<and>
           faces e = [i, j]"
proof -
  let ?n = "(length positions + 2) div 3"
  have idx: "triangleIndices positions = [0..<?n]" by (rule triangleIndices_upt)
  from ij idx have jn: "j < ?n" and "i < ?n" by auto
  have all: "foldR (\<lambda>p. addEdge big (fst p) (snd p)) (allEdges positions) [] = Inr m"
    using build by (simp add: buildEdgeMap_allEdges)
  have "(i, (a, b)) \<in> set (allEdges positions)"
    using ei \<open>i < ?n\<close> by (auto simp: allEdges_def idx)
  have keys_defined: "\<exists>k. makeEdgeKey big (fst (snd p)) (snd (snd p)) = Inr k"
    if "p \<in> set es" "foldR (\<lambda>p. addEdge big (fst p) (snd p)) es m0 = Inr m'" for p es m0 m'
    using that
  proof (induction es arbitrary: m0)
    case Nil
    then show ?case by simp
  next
    case (Cons q es)
    then show ?case by (auto simp: bindR_Inr_iff addEdge_def)
  qed
  from keys_defined [OF \<open>(i, (a, b)) \<in> set (allEdges positions)\<close> all]
  obtain k where k: "makeEdgeKey big a b = Inr k" by auto
  let ?g = "\<lambda>t. filter (hasKey big k) (map (Pair t) (triangleEdges positions t))"
  have filt: "filter (hasKey big k) (allEdges positions) = concat (map ?g [0..<?n])"
    by (simp add: allEdges_def idx filter_concat comp_def)
  have gi: "?g i = [(i, (a, b))]"
  proof -
    have "filter (\<lambda>e. hasKey big k (i, e)) (triangleEdges positions i) =
          filter (\<lambda>e. e = (a, b)) (triangleEdges positions i)"
      using only \<open>i < ?n\<close> ij(1) k by (intro filter_cong) (auto simp: hasKey_def idx)
    then show ?thesis
      by (simp add: filter_map comp_def filter_triangleEdges [OF ab ei])
  qed
  have gj: "?g j = [(j, (b, a))]"
  proof -
    have "filter (\<lambda>e. hasKey big k (j, e)) (triangleEdges positions j) =
          filter (\<lambda>e. e = (b, a)) (triangleEdges positions j)"
      using only jn ij(1) k makeEdgeKey_swap [of big b a]
      by (intro filter_cong) (auto simp: hasKey_def idx)
    then show ?thesis
      using ab by (simp add: filter_map comp_def filter_triangleEdges [OF _ ej])
  qed
  have gt: "?g t = []" if "t < ?n" "t \<noteq> i" "t \<noteq> j" for t
    using only that k by (auto simp: filter_empty_conv hasKey_def idx)
  have "concat (map ?g [0..<?n]) = ?g i @ ?g j"
    by (rule concat_two [OF ij(1) jn gt])
  with filt gi gj have "map fst (filter (hasKey big k) (allEdges positions)) = [i, j]"
    by simp
  with buildEdgeMap_faces(1) [OF build, of k] buildEdgeMap_faces(2) [OF build] have fa: "facesAt m k = [i, j]" and dist: "distinct (map fst m)"
    by simp_all
  from fa obtain e where e: "map_of m k = Some e" "faces e = [i, j]"
    by (auto simp: facesAt_def split: option.splits)
  from filter_unique_key [OF dist e(1)] k e(2) show ?thesis by blast
qed

lemma toFixed_defined: "a \<noteq> Undefined \<Longrightarrow> \<exists>s. toFixed big f a = Inr s"
  by (cases a) simp_all

lemma pointKey_defined: "definedV v \<Longrightarrow> \<exists>s. pointKey big v = Inr s"
proof -
  assume "definedV v"
  then obtain a b c where "toFixed big 4 (vx v) = Inr a" "toFixed big 4 (vy v) = Inr b"
    "toFixed big 4 (vz v) = Inr c"
    unfolding definedV_def
    using toFixed_defined [of "vx v" big 4] toFixed_defined [of "vy v" big 4]
      toFixed_defined [of "vz v" big 4] by auto
  then show ?thesis by (simp add: pointKey_def)
qed

lemma makeEdgeKey_defined: "definedV a \<Longrightarrow> definedV b \<Longrightarrow> \<exists>k. makeEdgeKey big a b = Inr k"
proof -
  assume "definedV a" "definedV b"
  then obtain ka kb where "pointKey big a = Inr ka" "pointKey big b = Inr kb"
    using pointKey_defined by blast
  then show ?thesis by (simp add: makeEdgeKey_def)
qed

lemma triangle_reads_in_range:
  assumes "length positions mod 3 = 0" "i \<in> set (triangleIndices positions)"
  shows "i * 3 + 2 < length positions"
proof -
  from assms(2) have "3 * i < length positions"
    by (simp add: triangleIndices_def forRange_set in_triangle_bound)
  with assms(1) show ?thesis by presburger
qed

lemma triangleEdges_defined:
  assumes "length positions mod 3 = 0" "\<forall>v \<in> set positions. definedV v"
    "i \<in> set (triangleIndices positions)" "e \<in> set (triangleEdges positions i)"
  shows "definedV (fst e) \<and> definedV (snd e)"
proof -
  from triangle_reads_in_range [OF assms(1,3)] have r: "i * 3 + 2 < length positions" .
  then have "fromBufferAttribute positions (i * 3) \<in> set positions"
    "fromBufferAttribute positions (i * 3 + 1) \<in> set positions"
    "fromBufferAttribute positions (i * 3 + 2) \<in> set positions"
    by (simp_all add: fromBufferAttribute_def)
  with assms(2,4) show ?thesis
    by (auto simp: triangleEdges_def Let_def)
qed

lemma buildEdgeMap_total:
  assumes "length positions mod 3 = 0" "\<forall>v \<in> set positions. definedV v"
  shows "\<exists>m. buildEdgeMap big positions = Inr m"
  unfolding buildEdgeMap_allEdges
proof (rule foldR_total)
  fix p and s :: EdgeMap
  assume "p \<in> set (allEdges positions)"
  then obtain i e where p: "p = (i, e)" and i: "i \<in> set (triangleIndices positions)"
    and e: "e \<in> set (triangleEdges positions i)"
    by (auto simp: allEdges_def)
  from triangleEdges_defined [OF assms i e] obtain k
    where "makeEdgeKey big (fst e) (snd e) = Inr k"
    using makeEdgeKey_defined by blast
  then show "\<exists>s'. addEdge big (fst p) (snd p) s = Inr s'"
    by (simp add: p addEdge_def)
qed

lemma two_keys:
  "makeEdgeKey plainBig ptA ptB = Inr ''0.0000,0.0000,0.0000-1.0000,0.0000,0.0000''"
  "makeEdgeKey plainBig ptB ptC = Inr ''0.0000,1.0000,0.0000-1.0000,0.0000,0.0000''"
  "makeEdgeKey plainBig ptC ptA = Inr ''0.0000,0.0000,0.0000-0.0000,1.0000,0.0000''"
  "makeEdgeKey plainBig ptB ptA = Inr ''0.0000,0.0000,0.0000-1.0000,0.0000,0.0000''"
  "makeEdgeKey plainBig ptA ptD = Inr ''0.0000,0.0000,0.0000-0.0000,0.0000,1.0000''"
  "makeEdgeKey plainBig ptD ptB = Inr ''0.0000,0.0000,1.0000-1.0000,0.0000,0.0000''"
  by (simp_all add: makeEdgeKey_def sample_pointKeys)

lemma two_points: "ptA \<noteq> ptB"
  by (simp add: ptA_def ptB_def vec_def)

lemma two_edges:
  "triangleEdges twoTriangles 0 = [(ptA, ptB), (ptB, ptC), (ptC, ptA)]"
  "triangleEdges twoTriangles (Suc 0) = [(ptB, ptA), (ptA, ptD), (ptD, ptB)]"
  by (simp_all add: triangleEdges_def twoTriangles_def fromBufferAttribute_def)

lemma two_indices: "triangleIndices twoTriangles = [0, 1]"
  by (simp add: triangleIndices_upt twoTriangles_def upt_conv_Cons)

lemma floor_count_div: "Math_floor (num c / Fin (numeral k)) = num (c div numeral k)"
proof -
  have "\<lfloor>real c / numeral k\<rfloor> = int (c div numeral k)"
    using floor_divide_of_nat_eq [of c "numeral k", where ?'a = real] by simp
  then show ?thesis by (simp add: num_def)
qed

lemma Math_min3_Fin: "Math_min3 (Fin a) (Fin b) (Fin c) = Fin (Min {a, b, c})"
  by (simp add: Math_min3_def min_def)

lemma concaveStep_total:
  "i < length faceNormals \<Longrightarrow> \<exists>c'. concaveStep positions faceNormals box i c = Inr c'"
  by (simp add: concaveStep_def nthNormal_def Let_def)

lemma countConcaveRegions_total:
  assumes "length (triangleIndices positions) \<le> length faceNormals"
  shows "\<exists>c. countConcaveRegions positions faceNormals box = Inr c"
  unfolding countConcaveRegions_def
proof (rule foldR_total)
  fix i and c :: nat assume "i \<in> set (triangleIndices positions)"
  then have "i < length faceNormals" using assms by (simp add: triangleIndices_upt)
  then show "\<exists>c'. concaveStep positions faceNormals box i c = Inr c'"
    by (rule concaveStep_total)
qed

lemma foldR_concave_all:
  "(\<And>i. i \<in> set idxs \<Longrightarrow> concaveStep ps ns box i = (\<lambda>c. Inr (c + 1))) \<Longrightarrow>
   foldR (concaveStep ps ns box) idxs c = Inr (c + length idxs)"
  by (induction idxs arbitrary: c) auto

lemma cavity_center: "getCenter cavityBox = vec (Fin 0) (Fin 0) (Fin 0)"
  by (simp add: getCenter_def isEmpty_def cavityBox_def vec_def addVectors_def multiplyScalar_def)

lemma cavity_size: "getSize cavityBox = vec (Fin 2) (Fin 2) (Fin 2)"
  by (simp add: getSize_def isEmpty_def cavityBox_def vec_def subVectors_def minus_number_def)

lemma cavity_count: "countConcaveRegions cavitySoup cavityNormals cavityBox = Inr 10"
proof -
  have "foldR (concaveStep cavitySoup cavityNormals cavityBox) (triangleIndices cavitySoup) 0
        = Inr (0 + length (triangleIndices cavitySoup))"
  proof (rule foldR_concave_all)
    fix i assume "i \<in> set (triangleIndices cavitySoup)"
    then have i: "i < 10" by (simp add: triangleIndices_upt cavitySoup_def)
    then have "centroidOf cavitySoup i = vec (Fin 0) (Fin 0) (Fin (- 1))"
      by (simp add: centroidOf_def fromBufferAttribute_def cavitySoup_def vec_def
          addVectors_def divideScalar_def multiplyScalar_def)
    with i show "concaveStep cavitySoup cavityNormals cavityBox i = (\<lambda>c. Inr (c + 1))"
      by (simp add: concaveStep_def nthNormal_def cavityNormals_def cavity_center fun_eq_iff
          subVectors_def vec_def minus_number_def normalize_def lengthV_def orElse_def
          divideScalar_def multiplyScalar_def dot_def)
  qed
  then show ?thesis
    by (simp add: countConcaveRegions_def triangleIndices_upt cavitySoup_def)
qed

lemma dent_count: "countConcaveRegions dentSoup dentNormals cavityBox = Inr 1"
  by (simp add: countConcaveRegions_def triangleIndices_upt dentSoup_def concaveStep_def
      nthNormal_def dentNormals_def cavity_center centroidOf_def fromBufferAttribute_def
      addVectors_def subVectors_def vec_def minus_number_def normalize_def lengthV_def
      orElse_def divideScalar_def multiplyScalar_def dot_def upt_conv_Cons)

lemma sqrt_9: "sqrt 9 = 3"
  by (rule real_sqrt_unique) simp_all

lemma dent_normals: "calculateFaceNormals dentSoup = dentNormals"
  by (simp add: calculateFaceNormals_def triangleIndices_upt dentSoup_def faceNormal_def
      dentNormals_def fromBufferAttribute_def crossVectors_def
      subVectors_def vec_def minus_number_def normalize_def lengthV_def
      orElse_def divideScalar_def multiplyScalar_def upt_conv_Cons Let_def sqrt_9)

lemma cavities_formula:
  assumes "buildEdgeMap big positions = Inr edgeMap"
    and "length (triangleIndices positions) \<le> length faceNormals"
    and "getSize box = vec (Fin sx) (Fin sy) (Fin sz)"
  shows "\<exists>r c. analyzeCavities big positions faceNormals box = Inr r \<and>
           countConcaveRegions positions faceNormals box = Inr c \<and>
           potentialCavities r = num (c div 10) \<and>
           estimatedHoleDepths r = (if 0 < c then [Fin (Min {sx, sy, sz} * 0.3)] else [])"
proof -
  from countConcaveRegions_total [OF assms(2)] obtain c
    where c: "countConcaveRegions positions faceNormals box = Inr c" by blast
  show ?thesis
    using assms(1,3) c
    by (simp add: analyzeCavities_def Let_def floor_count_div vec_def Math_min3_Fin)
qed

lemma isFin_iff: "isFin a \<longleftrightarrow> (\<exists>r. a = Fin r)"
  by (cases a) simp_all

lemma finiteV_iff: "finiteV v \<longleftrightarrow> (\<exists>a b c. v = vec (Fin a) (Fin b) (Fin c))"
  by (cases v) (auto simp: finiteV_def vec_def isFin_iff)

lemma square_cases: "a * a = Fin r \<Longrightarrow> \<exists>s. a = Fin s \<and> r = s * s" for a :: number
  by (cases a) simp_all

lemma plus_Fin_cases: "a + b = Fin r \<Longrightarrow> \<exists>s t. a = Fin s \<and> b = Fin t \<and> r = s + t" for a b :: number
  by (cases a; cases b) simp_all

lemma sqrt_zero_cases: "Math_sqrt s = Fin 0 \<Longrightarrow> s = Fin 0"
  by (cases s) (simp_all split: if_splits)

lemma lengthV_zero: "lengthV c = Fin 0 \<Longrightarrow> c = zeroV"
proof -
  assume "lengthV c = Fin 0"
  then have "vx c * vx c + vy c * vy c + vz c * vz c = Fin 0"
    unfolding lengthV_def by (rule sqrt_zero_cases)
  then obtain p q where pq: "vx c * vx c + vy c * vy c = Fin p" "vz c * vz c = Fin q" "0 = p + q"
    using plus_Fin_cases by blast
  from pq(1) obtain p1 p2 where p: "vx c * vx c = Fin p1" "vy c * vy c = Fin p2" "p = p1 + p2"
    using plus_Fin_cases by blast
  from p(1) obtain x where x: "vx c = Fin x" "p1 = x * x" using square_cases by blast
  from p(2) obtain y where y: "vy c = Fin y" "p2 = y * y" using square_cases by blast
  from pq(2) obtain z where z: "vz c = Fin z" "q = z * z" using square_cases by blast
  from pq(3) p(3) x(2) y(2) z(2) have "x * x + y * y + z * z = 0" by simp
  then have "x = 0 \<and> y = 0 \<and> z = 0"
    by (metis add_nonneg_eq_0_iff mult_eq_0_iff zero_le_square add_nonneg_nonneg)
  with x(1) y(1) z(1) show ?thesis
    by (cases c) (simp add: zeroV_def vec_def)
qed

lemma normalize_zeroV: "normalize zeroV = zeroV"
  by (simp add: normalize_def zeroV_def vec_def lengthV_def orElse_def divideScalar_def
      multiplyScalar_def)

lemma normalize_zero_length: "lengthV c = Fin 0 \<Longrightarrow> normalize c = zeroV"
  using lengthV_zero [of c] by (simp add: normalize_zeroV)

lemma dot_zeroV: "finiteV n \<Longrightarrow> dot zeroV n = Fin 0 \<and> dot n zeroV = Fin 0"
  by (auto simp: finiteV_iff dot_def zeroV_def vec_def)

lemma dot_exact: "dotIn exactArith a b = dot a b"
  by (simp add: dotIn_def dot_def exactArith_def)

lemma dihedral_zeroV:
  "finiteV n \<Longrightarrow> dihedralAngleIn exactArith zeroV n = Fin 90 \<and>
                dihedralAngleIn exactArith n zeroV = Fin 90"
  by (simp add: dihedralAngleIn_def dot_exact dot_zeroV Let_def)
     (simp add: exactArith_def Math_PI_def minus_number_def)

lemma zero_times_cases: "Fin 0 * a = Fin 0 \<or> Fin 0 * a = NaN" for a :: number
  by (cases a) simp_all

lemma dot_zeroV_cases: "dot zeroV t = Fin 0 \<or> dot zeroV t = NaN"
  using zero_times_cases [of "vx t"] zero_times_cases [of "vy t"] zero_times_cases [of "vz t"]
  by (auto simp: dot_def zeroV_def vec_def)

lemma edgeStep_zero_normal:
  assumes "faces e = [f0, f1]" "f0 < length ns" "f1 < length ns"
    and "ns ! f0 = zeroV \<or> ns ! f1 = zeroV" and "finiteV (ns ! f0)" "finiteV (ns ! f1)"
  shows "edgeStep ns (k, e) s = Inr s"
  using assms dihedral_zeroV [of "ns ! f0"] dihedral_zeroV [of "ns ! f1"]
  by (auto simp: edgeStep_def edgeStepIn_def nthNormal_def Let_def)

lemma concaveStep_zero_normal:
  assumes "i < length ns" "ns ! i = zeroV"
  shows "concaveStep ps ns box i c = Inr c"
  using assms dot_zeroV_cases [of "normalize (subVectors (getCenter box) (centroidOf ps i))"]
  by (auto simp: concaveStep_def nthNormal_def Let_def)

lemma tubularStep_zero_normal:
  assumes "i < length ns" "ns ! i = zeroV"
  shows "tubularStep ns i t = Inr t"
  using assms by (simp add: tubularStep_def nthNormal_def zeroV_def vec_def)

lemma oppositeStep_zero_normal:
  assumes "i < length ns" "ns ! i = zeroV" "finiteV normal"
  shows "oppositeStep ps ns triIndex normal centroid i d = Inr d"
  using assms dot_zeroV [of normal]
  by (simp add: oppositeStep_def nthNormal_def)

lemma curvatureStep_zero_normal:
  assumes "ns ! i = zeroV" "finiteV (ns ! (i - 1))"
  shows "curvatureStep ns i acc = (fst acc + Fin 1, snd acc + Fin 1)"
  using assms dot_zeroV [of "ns ! (i - 1)"]
  by (simp add: curvatureStep_def minus_number_def Let_def)

lemma length_calculateFaceNormals:
  "length (calculateFaceNormals positions) = length (triangleIndices positions)"
  by (simp add: calculateFaceNormals_def)

lemma nthNormal_calculateFaceNormals:
  "i \<in> set (triangleIndices positions) \<Longrightarrow>
   nthNormal (calculateFaceNormals positions) i = Inr (faceNormal positions i)"
  by (simp add: nthNormal_def calculateFaceNormals_def triangleIndices_upt)

lemma entryWithin_new: "(i, vs) \<in> S \<Longrightarrow> entryWithin S \<lparr>faces = [i], vertices = vs\<rparr>"
  unfolding entryWithin_def by (metis EdgeEntry.select_convs(1,2) empty_iff empty_set fst_conv image_eqI set_ConsD snd_conv subsetI)

lemma entryWithin_push:
  "entryWithin S e \<Longrightarrow> (i, vs) \<in> S \<Longrightarrow> entryWithin S (e\<lparr>faces := faces e @ [i]\<rparr>)"
proof -
  assume e: "entryWithin S e" and i: "(i, vs) \<in> S"
  from i have "i \<in> fst ` S" by (metis fst_conv image_eqI)
  with e show ?thesis unfolding entryWithin_def by simp
qed

lemma pushFace_within:
  assumes "(i, vs) \<in> S"
  shows "(\<forall>ke \<in> set m. entryWithin S (snd ke)) \<Longrightarrow>
         (\<forall>ke \<in> set (pushFace key vs i m). entryWithin S (snd ke))"
proof (induction m)
  case Nil
  show ?case using assms by (simp add: entryWithin_new)
next
  case (Cons p m)
  obtain k e where p: "p = (k, e)" by (cases p)
  show ?case
  proof (cases "k = key")
    case True
    with Cons.prems p assms show ?thesis by (simp add: entryWithin_push)
  next
    case False
    with Cons p show ?thesis by simp
  qed
qed

lemma foldR_addEdge_within:
  assumes "foldR (\<lambda>p. addEdge big (fst p) (snd p)) es m0 = Inr m"
    and "\<forall>ke \<in> set m0. entryWithin S (snd ke)" "set es \<subseteq> S"
  shows "\<forall>ke \<in> set m. entryWithin S (snd ke)"
  using assms
proof (induction es arbitrary: m0)
  case Nil
  then show ?case by simp
next
  case (Cons p es)
  from Cons.prems(1) obtain m1 where m1: "addEdge big (fst p) (snd p) m0 = Inr m1"
    and rest: "foldR (\<lambda>p. addEdge big (fst p) (snd p)) es m1 = Inr m"
    by (auto simp: bindR_Inr_iff)
  from m1 obtain key where "m1 = pushFace key (snd p) (fst p) m0"
    by (auto simp: addEdge_def bindR_Inr_iff)
  moreover from Cons.prems(3) have "(fst p, snd p) \<in> S" by simp
  ultimately have "\<forall>ke \<in> set m1. entryWithin S (snd ke)"
    using Cons.prems(2) pushFace_within [of "fst p" "snd p" S m0 key] by simp
  from Cons.IH [OF rest this] Cons.prems(3) show ?case by simp
qed

lemma buildEdgeMap_within:
  assumes "buildEdgeMap big positions = Inr m" "ke \<in> set m"
  shows "entryWithin (set (allEdges positions)) (snd ke)"
  using foldR_addEdge_within [OF assms(1) [unfolded buildEdgeMap_allEdges], of "set (allEdges positions)"]
    assms(2) by simp

lemma finiteV_defined: "finiteV v \<Longrightarrow> definedV v"
  by (auto simp: finiteV_iff definedV_def vec_def)

lemma edgeStepIn_in_range:
  assumes "\<forall>f \<in> set (faces (snd ke)). f < length ns"
  shows "edgeStepIn ar ns ke s = Inr (edgeAfterIn ar ns ke s)"
proof (cases "length (faces (snd ke)) = 2")
  case True
  then have "faces (snd ke) ! 0 \<in> set (faces (snd ke))" "faces (snd ke) ! 1 \<in> set (faces (snd ke))"
    by simp_all
  with assms have "faces (snd ke) ! 0 < length ns" "faces (snd ke) ! 1 < length ns" by blast+
  with True show ?thesis
    by (simp add: edgeStepIn_def edgeAfterIn_def nthNormal_def Let_def sharpEdgeListIn_def
        manifoldEdges_def edgeDihedralIn_def edgeRadiusIn_def)
next
  case False
  then show ?thesis
    by (cases s) (simp add: edgeStepIn_def edgeAfterIn_def Let_def sharpEdgeListIn_def manifoldEdges_def)
qed

lemma foldR_edgeStepIn:
  assumes "\<forall>ke \<in> set em. \<forall>f \<in> set (faces (snd ke)). f < length ns"
  shows "\<exists>s'. foldR (edgeStepIn ar ns) em s = Inr s' \<and>
     sharpEdgesL s' = sharpEdgesL s + length (sharpEdgeListIn ar ns em) \<and>
     sharpEdgeAnglesL s' = sharpEdgeAnglesL s @ map (edgeDihedralIn ar ns) (sharpEdgeListIn ar ns em) \<and>
     minCurvatureRadiusL s' =
       foldl Math_min (minCurvatureRadiusL s) (map (edgeRadiusIn ar ns) (sharpEdgeListIn ar ns em))"
  using assms
proof (induction em arbitrary: s)
  case Nil
  then show ?case by (simp add: sharpEdgeListIn_def manifoldEdges_def)
next
  case (Cons ke em)
  have step: "edgeStepIn ar ns ke s = Inr (edgeAfterIn ar ns ke s)"
    using Cons.prems by (intro edgeStepIn_in_range) simp
  from Cons.IH [of "edgeAfterIn ar ns ke s"] Cons.prems obtain s'
    where s': "foldR (edgeStepIn ar ns) em (edgeAfterIn ar ns ke s) = Inr s'"
      "sharpEdgesL s' = sharpEdgesL (edgeAfterIn ar ns ke s) + length (sharpEdgeListIn ar ns em)"
      "sharpEdgeAnglesL s' = sharpEdgeAnglesL (edgeAfterIn ar ns ke s) @ map (edgeDihedralIn ar ns) (sharpEdgeListIn ar ns em)"
      "minCurvatureRadiusL s' = foldl Math_min (minCurvatureRadiusL (edgeAfterIn ar ns ke s))
          (map (edgeRadiusIn ar ns) (sharpEdgeListIn ar ns em))"
    by auto
  have split: "sharpEdgeListIn ar ns (ke # em) = sharpEdgeListIn ar ns [ke] @ sharpEdgeListIn ar ns em"
    by (simp add: sharpEdgeListIn_def manifoldEdges_def)
  show ?case
    using step s' by (simp add: split edgeAfterIn_def)
qed

lemma Math_min_Fin: "Math_min (Fin a) (Fin b) = Fin (min a b)"
  by (simp add: min_def)

lemma foldl_min_Fin:
  "foldl Math_min (Fin a) (map Fin rs) = Fin (Min (insert a (set rs)))"
proof (induction rs arbitrary: a)
  case Nil
  show ?case by simp
next
  case (Cons r rs)
  have m: "Min (insert (min a r) (set rs)) = Min (insert a (insert r (set rs)))"
  proof (cases "set rs = {}")
    case True
    then show ?thesis by (simp add: min.commute)
  next
    case False
    then show ?thesis by (simp add: min.assoc)
  qed
  have "foldl Math_min (Fin a) (map Fin (r # rs)) = foldl Math_min (Fin (min a r)) (map Fin rs)"
    by (simp only: list.map foldl.simps Math_min_Fin)
  also have "\<dots> = Fin (Min (insert (min a r) (set rs)))" by (rule Cons)
  also have "\<dots> = Fin (Min (insert a (set (r # rs))))" by (simp only: m list.set)
  finally show ?case .
qed

lemma foldl_min_PInf:
  "foldl Math_min PInf (map Fin rs) = (if rs = [] then PInf else Fin (Min (set rs)))"
proof (cases rs)
  case Nil
  then show ?thesis by simp
next
  case (Cons r rs')
  have "Math_min PInf (Fin r) = Fin r" by simp
  with Cons show ?thesis using foldl_min_Fin [of r rs'] by simp
qed

lemma two_map:
  "buildEdgeMap plainBig twoTriangles =
     Inr [(''0.0000,0.0000,0.0000-1.0000,0.0000,0.0000'', \<lparr>faces = [0, 1], vertices = (ptA, ptB)\<rparr>),
          (''0.0000,1.0000,0.0000-1.0000,0.0000,0.0000'', \<lparr>faces = [0], vertices = (ptB, ptC)\<rparr>),
          (''0.0000,0.0000,0.0000-0.0000,1.0000,0.0000'', \<lparr>faces = [0], vertices = (ptC, ptA)\<rparr>),
          (''0.0000,0.0000,0.0000-0.0000,0.0000,1.0000'', \<lparr>faces = [1], vertices = (ptA, ptD)\<rparr>),
          (''0.0000,0.0000,1.0000-1.0000,0.0000,0.0000'', \<lparr>faces = [1], vertices = (ptD, ptB)\<rparr>)]"
  by (simp add: buildEdgeMap_def two_indices addTriangle_def two_edges addEdge_def two_keys)

lemma two_dihedral: "dihedralAngleIn exactArith upNormal downNormal = Fin 0"
  by (simp add: dihedralAngleIn_def dotIn_def exactArith_def upNormal_def downNormal_def vec_def
      Math_PI_def minus_number_def Let_def)

lemma two_length: "distanceToIn exactArith ptA ptB = Fin 1"
  by (simp add: distanceToIn_def exactArith_def ptA_def ptB_def vec_def minus_number_def Let_def)

lemma sin_quarter_pos: "0 < sin (pi / 4)"
  by (simp add: sin_45)

lemma two_radius:
  "estimatedRadiusIn exactArith \<lparr>faces = fs, vertices = (ptA, ptB)\<rparr> (Fin 0)
     = Fin (1 / (2 * sin (pi / 4)))"
  using sin_quarter_pos
  by (simp add: estimatedRadiusIn_def two_length Let_def)
     (simp add: exactArith_def Math_PI_def minus_number_def)

lemma buildEdgeMap_face_range:
  assumes build: "buildEdgeMap big positions = Inr m" and ke: "ke \<in> set m"
  shows "\<forall>f \<in> set (faces (snd ke)). f < length (triangleIndices positions)"
proof -
  from buildEdgeMap_within [OF build ke]
  have w: "set (faces (snd ke)) \<subseteq> fst ` set (allEdges positions)"
    by (simp add: entryWithin_def)
  have "fst ` set (allEdges positions) \<subseteq> set (triangleIndices positions)"
    by (auto simp: allEdges_def)
  with w have "set (faces (snd ke)) \<subseteq> set (triangleIndices positions)" by blast
  then show ?thesis
    unfolding triangleIndices_upt
    by (metis atLeastLessThan_iff length_upt minus_nat.diff_0 set_upt subsetD)
qed

lemma analyzeEdgeMapIn_total:
  assumes "\<forall>ke \<in> set em. \<forall>f \<in> set (faces (snd ke)). f < length ns"
  shows "\<exists>r. analyzeEdgeMapIn ar ns em = Inr r"
proof -
  from foldR_edgeStepIn [OF assms] obtain s' where
    "foldR (edgeStepIn ar ns) em \<lparr>sharpEdgesL = 0, sharpEdgeAnglesL = [], tJunctionCountL = 0,
       minCurvatureRadiusL = PInf\<rparr> = Inr s'" by blast
  then show ?thesis by (simp add: analyzeEdgeMapIn_def)
qed

lemma analyzeEdges_total:
  assumes "buildEdgeMap big positions = Inr em"
    and "length (triangleIndices positions) \<le> length ns"
  shows "\<exists>r. analyzeEdges big positions ns = Inr r"
proof -
  have "\<forall>ke \<in> set em. \<forall>f \<in> set (faces (snd ke)). f < length ns"
    using buildEdgeMap_face_range [OF assms(1)] assms(2) by fastforce
  from analyzeEdgeMapIn_total [OF this] show ?thesis
    by (simp add: analyzeEdges_def analyzeEdgesIn_def assms(1))
qed

lemma finite_radii:
  assumes "\<forall>ke \<in> set sharp. isFin (f ke)"
  shows "map f sharp = map Fin (map (\<lambda>ke. realOf (f ke)) sharp)"
  using assms by (induction sharp) (auto simp: isFin_iff)

lemma edges_formula:
  assumes len: "length positions mod 3 = 0" and pos: "\<forall>v \<in> set positions. definedV v"
    and cover: "length (triangleIndices positions) \<le> length faceNormals"
  shows "\<exists>edgeMap r. buildEdgeMap big positions = Inr edgeMap \<and>
     analyzeEdgesIn ar big positions faceNormals = Inr r \<and>
     sharpEdges r = num (length (sharpEdgeListIn ar faceNormals edgeMap)) \<and>
     sharpEdgeAngles r = map (edgeDihedralIn ar faceNormals) (sharpEdgeListIn ar faceNormals edgeMap) \<and>
     (sharpEdgeListIn ar faceNormals edgeMap = [] \<longrightarrow> estimatedMinCurvatureRadius r = Fin 0) \<and>
     (sharpEdgeListIn ar faceNormals edgeMap \<noteq> [] \<and>
      (\<forall>ke \<in> set (sharpEdgeListIn ar faceNormals edgeMap). isFin (edgeRadiusIn ar faceNormals ke)) \<longrightarrow>
      estimatedMinCurvatureRadius r =
        Fin (Min (set (map (\<lambda>ke. realOf (edgeRadiusIn ar faceNormals ke))
                         (sharpEdgeListIn ar faceNormals edgeMap)))))"
proof -
  from buildEdgeMap_total [OF len pos] obtain em
    where em: "buildEdgeMap big positions = Inr em" by blast
  have range: "\<forall>ke \<in> set em. \<forall>f \<in> set (faces (snd ke)). f < length faceNormals"
    using buildEdgeMap_face_range [OF em] cover by fastforce
  let ?sharp = "sharpEdgeListIn ar faceNormals em"
  let ?rad = "\<lambda>ke. realOf (edgeRadiusIn ar faceNormals ke)"
  from foldR_edgeStepIn [OF range, of ar "\<lparr>sharpEdgesL = 0, sharpEdgeAnglesL = [], tJunctionCountL = 0,
               minCurvatureRadiusL = PInf\<rparr>"]
  obtain s' where s': "foldR (edgeStepIn ar faceNormals) em \<lparr>sharpEdgesL = 0, sharpEdgeAnglesL = [],
        tJunctionCountL = 0, minCurvatureRadiusL = PInf\<rparr> = Inr s'"
    "sharpEdgesL s' = length ?sharp"
    "sharpEdgeAnglesL s' = map (edgeDihedralIn ar faceNormals) ?sharp"
    "minCurvatureRadiusL s' = foldl Math_min PInf (map (edgeRadiusIn ar faceNormals) ?sharp)"
    by auto
  let ?r = "\<lparr>totalEdges = num (length em), sharpEdges = num (sharpEdgesL s'),
          sharpEdgeAngles = sharpEdgeAnglesL s',
          estimatedMinCurvatureRadius =
            (if strictEq (minCurvatureRadiusL s') PInf then Fin 0 else minCurvatureRadiusL s'),
          tJunctionCount = num (tJunctionCountL s')\<rparr>"
  have r: "analyzeEdgesIn ar big positions faceNormals = Inr ?r"
    by (simp add: analyzeEdgesIn_def em analyzeEdgeMapIn_def s'(1))
  have none: "estimatedMinCurvatureRadius ?r = Fin 0" if "?sharp = []"
    using that by (simp add: s'(4) strictEq_def)
  have some: "estimatedMinCurvatureRadius ?r = Fin (Min (set (map ?rad ?sharp)))"
    if ne: "?sharp \<noteq> []" and fin: "\<forall>ke \<in> set ?sharp. isFin (edgeRadiusIn ar faceNormals ke)"
  proof -
    have "map (edgeRadiusIn ar faceNormals) ?sharp = map Fin (map ?rad ?sharp)"
      using fin by (rule finite_radii)
    then have "minCurvatureRadiusL s' = foldl Math_min PInf (map Fin (map ?rad ?sharp))"
      by (simp only: s'(4))
    also have "\<dots> = Fin (Min (set (map ?rad ?sharp)))"
      using foldl_min_PInf [of "map ?rad ?sharp"] ne by (simp only: map_is_Nil_conv if_False)
    finally show ?thesis by (simp add: strictEq_def del: set_map)
  qed
  from em r s'(2,3) none some show ?thesis
    by (intro exI [of _ em] exI [of _ ?r]) (simp del: set_map)
qed

lemma analyzeCavities_total:
  assumes "buildEdgeMap big positions = Inr em"
    and "length (triangleIndices positions) \<le> length ns"
  shows "\<exists>r. analyzeCavities big positions ns box = Inr r"
proof -
  from countConcaveRegions_total [OF assms(2)] obtain c
    where "countConcaveRegions positions ns box = Inr c" by blast
  then show ?thesis by (simp add: analyzeCavities_def assms(1) Let_def)
qed

lemma analyzeChannels_total:
  assumes "length (triangleIndices positions) \<le> length ns"
  shows "\<exists>r. analyzeChannels positions ns box = Inr r"
proof -
  from countTubularRegions_total [OF assms] obtain t
    where "countTubularRegions positions ns = Inr t" by blast
  then show ?thesis by (simp add: analyzeChannels_def Let_def)
qed

lemma oppositeStep_total:
  "i < length ns \<Longrightarrow> \<exists>d'. oppositeStep ps ns t normal centroid i d = Inr d'"
  by (simp add: oppositeStep_def nthNormal_def Let_def)

lemma drawn_index:
  assumes "0 \<le> u" "u < 1" "length positions mod 3 = 0" "0 < length positions"
  shows "\<exists>k. asIndex (Math_floor (Fin u * triangleCountOf positions)) = Some k \<and>
             k < length (triangleIndices positions)"
proof -
  let ?n = "length positions"
  from assms(3) obtain q where q: "?n = 3 * q" by (auto simp: mod_eq_0_iff_dvd)
  with assms(4) have q0: "0 < q" by simp
  have tc: "triangleCountOf positions = Fin (real q)" by (simp add: triangleCountOf_def num_def q)
  have m: "length (triangleIndices positions) = q" by (simp add: triangleIndices_upt q)
  have lo: "0 \<le> u * real q" using assms(1) by simp
  have hi: "u * real q < real q" using assms(2) q0 by simp
  let ?k = "nat \<lfloor>u * real q\<rfloor>"
  have "\<lfloor>u * real q\<rfloor> < int q" using hi by (simp add: floor_less_iff)
  moreover have "0 \<le> \<lfloor>u * real q\<rfloor>" using lo by simp
  ultimately have "?k < q" by linarith
  moreover have "asIndex (Math_floor (Fin u * triangleCountOf positions)) = Some ?k"
    using lo by (simp add: tc)
  ultimately show ?thesis using m by simp
qed

lemma sampleStep_total:
  assumes "0 \<le> rnd s" "rnd s < 1" "length positions mod 3 = 0" "0 < length positions"
    and "length (triangleIndices positions) \<le> length ns"
  shows "\<exists>acc'. sampleStep rnd positions ns s acc = Inr acc'"
proof -
  from drawn_index [OF assms(1-4)] obtain k
    where k: "asIndex (Math_floor (Fin (rnd s) * triangleCountOf positions)) = Some k"
      "k < length (triangleIndices positions)" by blast
  with assms(5) have kn: "nthNormal ns k = Inr (ns ! k)" by (simp add: nthNormal_def)
  have "\<exists>d. foldR (oppositeStep positions ns k (ns ! k) (centroidOf positions k))
          (forRange 5 (triangleCountOf positions) (length positions)) PInf = Inr d"
  proof (rule foldR_total)
    fix i and d :: number
    assume "i \<in> set (forRange 5 (triangleCountOf positions) (length positions))"
    then have "i < length ns" using assms(5) sampled_in_triangleIndices [of i 5 positions] by simp
    then show "\<exists>d'. oppositeStep positions ns k (ns ! k) (centroidOf positions k) i d = Inr d'"
      by (rule oppositeStep_total)
  qed
  then obtain d where "foldR (oppositeStep positions ns k (ns ! k) (centroidOf positions k))
          (forRange 5 (triangleCountOf positions) (length positions)) PInf = Inr d" by blast
  then show ?thesis by (simp add: sampleStep_def k(1) kn Let_def)
qed

lemma forRange_empty_soup: "forRange step bound 0 = []"
  by (simp add: forRange_def)

lemma sample_loop_empty:
  "forRange step (Math_min (Fin 100) (Math_floor (triangleCountOf [] / Fin 10))) 100 = []"
  by (simp add: forRange_def triangleCountOf_def num_def)

lemma analyzeWallThickness_total:
  assumes "\<forall>s. 0 \<le> rnd s \<and> rnd s < 1" "length positions mod 3 = 0"
    and "length (triangleIndices positions) \<le> length ns"
  shows "\<exists>r. analyzeWallThickness rnd positions ns box = Inr r"
proof -
  let ?count = "Math_min (Fin 100) (Math_floor (triangleCountOf positions / Fin 10))"
  have "\<exists>acc. foldR (sampleStep rnd positions ns) (forRange 1 ?count 100) [] = Inr acc"
  proof (cases "length positions = 0")
    case True
    then show ?thesis by (simp add: sample_loop_empty)
  next
    case False
    show ?thesis
    proof (rule foldR_total)
      fix s and acc :: "number list"
      from False assms show "\<exists>acc'. sampleStep rnd positions ns s acc = Inr acc'"
        by (intro sampleStep_total) auto
    qed
  qed
  then obtain acc where "foldR (sampleStep rnd positions ns) (forRange 1 ?count 100) [] = Inr acc"
    by blast
  then show ?thesis by (simp add: analyzeWallThickness_def Let_def)
qed

lemma binStep_total: "i < length ns \<Longrightarrow> \<exists>b'. binStep ps ns i b = Inr b'"
  by (simp add: binStep_def nthNormal_def Let_def)

lemma analyzeGeometricComplexity_total:
  assumes "buildEdgeMap big positions = Inr em"
    and "length (triangleIndices positions) \<le> length ns"
  shows "\<exists>r. analyzeGeometricComplexity big positions ns box area = Inr r"
proof -
  have "\<exists>b. foldR (binStep positions ns) (triangleIndices positions) [] = Inr b"
  proof (rule foldR_total)
    fix i and b :: NormalBins
    assume "i \<in> set (triangleIndices positions)"
    then have "i < length ns" using assms(2) by (simp add: triangleIndices_upt)
    then show "\<exists>b'. binStep positions ns i b = Inr b'" by (rule binStep_total)
  qed
  then obtain b where "foldR (binStep positions ns) (triangleIndices positions) [] = Inr b" by blast
  then show ?thesis by (simp add: analyzeGeometricComplexity_def Let_def assms(1))
qed

lemma wellformed_returns:
  assumes len: "length positions mod 3 = 0" and def: "\<forall>v \<in> set positions. definedV v"
    and rnd: "\<forall>s. 0 \<le> rnd s \<and> rnd s < 1"
  shows "\<exists>d. analyzeSTLGeometry big rnd positions = Inr d \<and>
           triangleCount d = triangleCountOf positions \<and>
           normalDistribution d = distributionOf positions"
proof -
  let ?ns = "calculateFaceNormals positions"
  let ?box = "computeBoundingBox positions"
  have cover: "length (triangleIndices positions) \<le> length ?ns"
    by (simp add: length_calculateFaceNormals)
  from buildEdgeMap_total [OF len def] obtain em
    where em: "buildEdgeMap big positions = Inr em" by blast
  from analyzeEdges_total [OF em cover] obtain e
    where e: "analyzeEdges big positions ?ns = Inr e" by blast
  from analyzeCavities_total [OF em cover] obtain c
    where c: "analyzeCavities big positions ?ns ?box = Inr c" by blast
  from analyzeChannels_total [OF cover] obtain ch
    where ch: "analyzeChannels positions ?ns ?box = Inr ch" by blast
  from analyzeWallThickness_total [OF rnd len cover] obtain w
    where w: "analyzeWallThickness rnd positions ?ns ?box = Inr w" by blast
  from analyzeGeometricComplexity_total [OF em cover] obtain g
    where g: "analyzeGeometricComplexity big positions ?ns ?box (surfaceAreaL (bulkLoop positions)) = Inr g"
    by blast
  show ?thesis
    by (simp add: analyzeSTLGeometry_def Let_def em e c ch w g distributionOf_def)
qed

lemma pointKey_undefined: "pointKey big (vec Undefined Undefined Undefined) = Inl TypeError"
  by (simp add: pointKey_def vec_def)

lemma makeEdgeKey_undefined:
  "makeEdgeKey big a (vec Undefined Undefined Undefined) = Inl TypeError"
  by (cases "pointKey big a") (simp_all add: makeEdgeKey_def pointKey_undefined error_eq)

lemma addEdge_undefined: "addEdge big i (a, vec Undefined Undefined Undefined) m = Inl TypeError"
  by (simp add: addEdge_def makeEdgeKey_undefined)

lemma addTriangle_past_end:
  assumes "length positions \<le> i * 3 + 2"
  shows "addTriangle big positions i m = Inl TypeError"
proof -
  from assms have v2: "fromBufferAttribute positions (Suc (Suc (i * 3))) = vec Undefined Undefined Undefined"
    by (simp add: fromBufferAttribute_def)
  show ?thesis
  proof (cases "addEdge big i (fromBufferAttribute positions (i * 3),
                  fromBufferAttribute positions (i * 3 + 1)) m")
    case (Inl e)
    then show ?thesis
      by (simp add: addTriangle_def triangleEdges_def Let_def error_eq)
  next
    case (Inr m1)
    then show ?thesis
      by (simp add: addTriangle_def triangleEdges_def Let_def v2 addEdge_undefined)
  qed
qed

lemma buildEdgeMap_malformed:
  assumes "length positions mod 3 \<noteq> 0"
  shows "buildEdgeMap big positions = Inl TypeError"
proof -
  let ?q = "length positions div 3"
  from assms have "(length positions + 2) div 3 = Suc ?q" by presburger
  then have idx: "triangleIndices positions = [0..<?q] @ [?q]"
    by (simp add: triangleIndices_upt)
  have last: "addTriangle big positions ?q m = Inl TypeError" for m
    by (rule addTriangle_past_end) presburger
  show ?thesis
    by (cases "foldR (addTriangle big positions) [0..<?q] []")
       (simp_all add: buildEdgeMap_def idx foldR_append last error_eq)
qed

lemma malformed_raises:
  assumes "length positions mod 3 \<noteq> 0"
  shows "analyzeSTLGeometry big rnd positions = Inl TypeError"
  by (simp add: analyzeSTLGeometry_def Let_def buildEdgeMap_malformed [OF assms])

lemma empty_soup_returns:
  "\<exists>d. analyzeSTLGeometry big rnd [] = Inr d \<and> triangleCount d = Fin 0 \<and> vertexCount d = Fin 0"
proof -
  let ?ns = "calculateFaceNormals []"
  let ?box = "computeBoundingBox []"
  have cover: "length (triangleIndices []) \<le> length ?ns"
    by (simp add: length_calculateFaceNormals)
  have em: "buildEdgeMap big [] = Inr []"
    by (simp add: buildEdgeMap_def triangleIndices_upt)
  from analyzeEdges_total [OF em cover] obtain e
    where e: "analyzeEdges big [] ?ns = Inr e" by blast
  from analyzeCavities_total [OF em cover] obtain c
    where c: "analyzeCavities big [] ?ns ?box = Inr c" by blast
  from analyzeChannels_total [OF cover] obtain ch
    where ch: "analyzeChannels [] ?ns ?box = Inr ch" by blast
  have "foldR (sampleStep rnd [] ?ns)
          (forRange 1 (Math_min (Fin 100) (Math_floor (triangleCountOf [] / Fin 10))) 100) []
        = Inr []"
    by (simp only: sample_loop_empty foldR.simps)
  then obtain w where w: "analyzeWallThickness rnd [] ?ns ?box = Inr w"
    by (simp add: analyzeWallThickness_def Let_def)
  from analyzeGeometricComplexity_total [OF em cover] obtain g
    where g: "analyzeGeometricComplexity big [] ?ns ?box (surfaceAreaL (bulkLoop [])) = Inr g"
    by blast
  show ?thesis
    by (simp add: analyzeSTLGeometry_def Let_def em e c ch w g triangleCountOf_def num_def)
qed

lemma stride3_filter: "filter (\<lambda>i. i mod 3 = 0) [0..<n] = map (\<lambda>t. t * 3) [0..<(n + 2) div 3]"
proof (induction n)
  case 0
  show ?case by simp
next
  case (Suc n)
  show ?case
  proof (cases "n mod 3 = 0")
    case True
    then have "(Suc n + 2) div 3 = Suc ((n + 2) div 3)" "(n + 2) div 3 * 3 = n" by presburger+
    with Suc True show ?thesis by simp
  next
    case False
    then have "(Suc n + 2) div 3 = (n + 2) div 3" by presburger
    with Suc False show ?thesis by simp
  qed
qed

lemma bulk_indices:
  "forRange 3 (num (length positions)) (length positions) =
   map (\<lambda>t. t * 3) (triangleIndices positions)"
proof -
  have "forRange 3 (num (length positions)) (length positions) =
        filter (\<lambda>i. i mod 3 = 0) [0..<length positions]"
    unfolding forRange_def by (rule filter_cong) (auto simp: num_def)
  then show ?thesis by (simp add: stride3_filter triangleIndices_upt)
qed

lemma normalSum_fold:
  "normalSumL (fold (bulkStep positions) (map (\<lambda>t. t * 3) ts) s) =
   fold (\<lambda>t acc. addVectors acc (bulkNormal positions t)) ts (normalSumL s)"
  by (induction ts arbitrary: s) (simp_all add: bulkStep_def Let_def bulkNormal_def)

lemma cross_winding:
  assumes "finiteV a" "finiteV b" "finiteV c"
  shows "crossVectors (subVectors c b) (subVectors a b) =
         crossVectors (subVectors b a) (subVectors c a)"
proof -
  from assms obtain a1 a2 a3 b1 b2 b3 c1 c2 c3 where
    "a = vec (Fin a1) (Fin a2) (Fin a3)" "b = vec (Fin b1) (Fin b2) (Fin b3)"
    "c = vec (Fin c1) (Fin c2) (Fin c3)" by (auto simp: finiteV_iff)
  then show ?thesis
    by (simp add: crossVectors_def subVectors_def vec_def minus_number_def algebra_simps)
qed

lemma finite_sub_cross:
  assumes "finiteV a" "finiteV b"
  shows "finiteV (subVectors a b)" "finiteV (crossVectors a b)"
proof -
  from assms obtain a1 a2 a3 b1 b2 b3 where ab:
    "a = vec (Fin a1) (Fin a2) (Fin a3)" "b = vec (Fin b1) (Fin b2) (Fin b3)"
    by (auto simp: finiteV_iff)
  show "finiteV (subVectors a b)" "finiteV (crossVectors a b)"
    by (simp_all add: ab subVectors_def crossVectors_def vec_def minus_number_def finiteV_def)
qed

lemma finite_normalize:
  assumes "finiteV a"
  shows "finiteV (normalize a)"
proof -
  from assms obtain a1 a2 a3 where a: "a = vec (Fin a1) (Fin a2) (Fin a3)"
    by (auto simp: finiteV_iff)
  have "\<not> a1 * a1 + a2 * a2 + a3 * a3 < 0" by (simp add: not_less)
  then show ?thesis
    by (simp add: a normalize_def lengthV_def vec_def orElse_def divideScalar_def
        multiplyScalar_def finiteV_def)
qed

lemma bulkNormal_faceNormal:
  assumes "length positions mod 3 = 0" "\<forall>v \<in> set positions. finiteV v"
    "t \<in> set (triangleIndices positions)"
  shows "bulkNormal positions t = faceNormal positions t" "finiteV (faceNormal positions t)"
proof -
  from triangle_reads_in_range [OF assms(1,3)] have r: "t * 3 + 2 < length positions" .
  then have "fromBufferAttribute positions (t * 3) \<in> set positions"
    "fromBufferAttribute positions (t * 3 + 1) \<in> set positions"
    "fromBufferAttribute positions (t * 3 + 2) \<in> set positions"
    by (simp_all add: fromBufferAttribute_def)
  with assms(2) have f: "finiteV (fromBufferAttribute positions (t * 3))"
    "finiteV (fromBufferAttribute positions (t * 3 + 1))"
    "finiteV (fromBufferAttribute positions (t * 3 + 2))" by blast+
  show "bulkNormal positions t = faceNormal positions t"
    by (simp only: bulkNormal_def faceNormal_def Let_def cross_winding [OF f])
  show "finiteV (faceNormal positions t)"
    unfolding faceNormal_def Let_def by (intro finite_normalize finite_sub_cross f)
qed

lemma fold_add_finite:
  assumes "\<forall>t \<in> set ts. finiteV (g t)"
  shows "fold (\<lambda>t acc. addVectors acc (g t)) ts (vec (Fin x) (Fin y) (Fin z)) =
     vec (Fin (x + sum_list (map (\<lambda>t. realOf (vx (g t))) ts)))
         (Fin (y + sum_list (map (\<lambda>t. realOf (vy (g t))) ts)))
         (Fin (z + sum_list (map (\<lambda>t. realOf (vz (g t))) ts)))"
  using assms
proof (induction ts arbitrary: x y z)
  case Nil
  show ?case by simp
next
  case (Cons t ts)
  from Cons.prems obtain a b c where g: "g t = vec (Fin a) (Fin b) (Fin c)"
    by (auto simp: finiteV_iff)
  have "addVectors (vec (Fin x) (Fin y) (Fin z)) (g t) = vec (Fin (x + a)) (Fin (y + b)) (Fin (z + c))"
    by (simp add: g addVectors_def vec_def)
  with Cons.IH [of "x + a" "y + b" "z + c"] Cons.prems show ?case
    by (simp add: g vec_def add.assoc)
qed

lemma normalSum_finite:
  assumes "length positions mod 3 = 0" "\<forall>v \<in> set positions. finiteV v"
  shows "normalSumL (bulkLoop positions) =
     vec (Fin (normalComponentSum vx positions)) (Fin (normalComponentSum vy positions))
         (Fin (normalComponentSum vz positions))"
proof -
  have "normalSumL (bulkLoop positions) =
        fold (\<lambda>t acc. addVectors acc (bulkNormal positions t)) (triangleIndices positions)
          (vec (Fin 0) (Fin 0) (Fin 0))"
    by (simp add: bulkLoop_def bulk_indices normalSum_fold)
  also have "\<dots> = fold (\<lambda>t acc. addVectors acc (faceNormal positions t)) (triangleIndices positions)
          (vec (Fin 0) (Fin 0) (Fin 0))"
    by (rule fold_cong) (simp_all add: bulkNormal_faceNormal(1) [OF assms])
  also have "\<dots> = vec (Fin (0 + normalComponentSum vx positions))
       (Fin (0 + normalComponentSum vy positions)) (Fin (0 + normalComponentSum vz positions))"
    unfolding normalComponentSum_def
    by (rule fold_add_finite) (simp add: bulkNormal_faceNormal(2) [OF assms])
  finally show ?thesis by simp
qed

lemma distribution_formula:
  assumes len: "length positions mod 3 = 0" and ne: "positions \<noteq> []"
    and fin: "\<forall>v \<in> set positions. finiteV v"
    and rnd: "\<forall>s. 0 \<le> rnd s \<and> rnd s < 1"
  shows "\<exists>d. analyzeSTLGeometry big rnd positions = Inr d \<and>
     normalDistribution d =
       vec (Fin (\<bar>normalComponentSum vx positions\<bar> / real (length (triangleIndices positions))))
           (Fin (\<bar>normalComponentSum vy positions\<bar> / real (length (triangleIndices positions))))
           (Fin (\<bar>normalComponentSum vz positions\<bar> / real (length (triangleIndices positions))))"
proof -
  from fin have def: "\<forall>v \<in> set positions. definedV v" by (simp add: finiteV_defined)
  from wellformed_returns [OF len def rnd, of big] obtain d
    where d: "analyzeSTLGeometry big rnd positions = Inr d"
      "normalDistribution d = distributionOf positions" by blast
  from len obtain q where q: "length positions = 3 * q" by (auto simp: mod_eq_0_iff_dvd)
  with ne have q0: "q \<noteq> 0" by (cases q) auto
  have cnt: "triangleCountOf positions = Fin (real q)" "length (triangleIndices positions) = q"
    by (simp_all add: triangleCountOf_def num_def q triangleIndices_upt)
  have "distributionOf positions =
       vec (Fin (\<bar>normalComponentSum vx positions\<bar> / real q))
           (Fin (\<bar>normalComponentSum vy positions\<bar> / real q))
           (Fin (\<bar>normalComponentSum vz positions\<bar> / real q))"
    using q0 by (simp add: distributionOf_def Let_def normalSum_finite [OF len fin] cnt vec_def)
  with d cnt show ?thesis by simp
qed

lemma flip_indices: "triangleIndices flipSoup = [0, 1]"
  by (simp add: triangleIndices_upt flipSoup_def upt_conv_Cons)

lemma flip_normals:
  "faceNormal flipSoup 0 = vec (Fin 0) (Fin 0) (Fin 1)"
  "faceNormal flipSoup (Suc 0) = vec (Fin 0) (Fin 0) (Fin (- 1))"
  by (simp_all add: faceNormal_def flipSoup_def fromBufferAttribute_def ptA_def ptB_def ptC_def
      subVectors_def crossVectors_def normalize_def lengthV_def orElse_def divideScalar_def
      multiplyScalar_def vec_def minus_number_def)

lemma flip_sums:
  "normalComponentSum vx flipSoup = 0" "normalComponentSum vy flipSoup = 0"
  "normalComponentSum vz flipSoup = 0"
  by (simp_all add: normalComponentSum_def flip_indices flip_normals vec_def)

lemma flip_wellformed:
  "length flipSoup mod 3 = 0" "flipSoup \<noteq> []" "\<forall>v \<in> set flipSoup. finiteV v"
  "\<forall>s. 0 \<le> zeroRandom s \<and> zeroRandom s < 1"
  by (simp_all add: flipSoup_def finiteV_def ptA_def ptB_def ptC_def vec_def zeroRandom_def)

section \<open>The claims\<close>

subsection \<open>Malformed input\<close>

text \<open>
  C1, as stated, fails: the claim requires that an empty point sequence is rejected with
  an error, and the entry point returns a bundle for it, with triangle count 0.
\<close>

theorem analyzeSTLGeometry_empty_counterexample:
  "map_sum id triangleCount (analyzeSTLGeometry plainBig zeroRandom []) = Inr (Fin 0)"
  using empty_soup_returns [of plainBig zeroRandom] by auto

text \<open>
  C1, amended. For a point sequence whose count is not a multiple of 3 the entry point
  returns no bundle: building the edge map raises a TypeError, when the key of an edge
  is computed from a point read past the end of the buffer, before any analyzer runs.
  The empty point sequence is not rejected: a bundle with triangle count 0 and vertex
  count 0 is returned.
\<close>

theorem analyzeSTLGeometry_malformed:
  "(length positions mod 3 \<noteq> 0 \<longrightarrow>
      buildEdgeMap big positions = Inl TypeError \<and>
      analyzeSTLGeometry big rnd positions = Inl TypeError) \<and>
   (\<exists>d. analyzeSTLGeometry big rnd [] = Inr d \<and> triangleCount d = Fin 0 \<and>
      vertexCount d = Fin 0)"
  by (simp add: buildEdgeMap_malformed malformed_raises empty_soup_returns)

theorem analyzeSTLGeometry_malformed_witness:
  "length fourPoints mod 3 \<noteq> 0 \<and>
   buildEdgeMap plainBig fourPoints = Inl TypeError \<and>
   analyzeSTLGeometry plainBig zeroRandom fourPoints = Inl TypeError"
proof -
  have m: "length fourPoints mod 3 \<noteq> 0" by (simp add: fourPoints_def)
  with analyzeSTLGeometry_malformed [of fourPoints plainBig zeroRandom] show ?thesis by blast
qed

subsection \<open>The validation engine\<close>

text \<open>
  C2. For every bundle of metrics, \<open>validateModel\<close> returns the same twelve checks, with
  the same names in the same order, whatever the values of the metrics are: no check is
  left out.
\<close>

theorem validateModel_complete:
  "length (validateModel data) = 12 \<and>
   map name (validateModel data) =
     [''Dimensioni Massime'', ''Tolleranze Applicabili'', ''Aspect Ratio'',
      ''Spigoli e Raccordi'', ''Cavit'' @ [CHR 0xE0] @ '' e Fori Ciechi'', ''Canali Aperti'',
      ''Rilievi e Incisioni'', ''Spessore Parete'', ''Base di Appoggio'', ''Filettature'',
      ''Oggetti Cavi'', ''Parti Concatenate'']"
  by (simp add: validateModel_def Let_def)

theorem validateModel_complete_witness:
  "length (validateModel exampleBlock) = 12 \<and>
   map name (validateModel exampleBlock) =
     [''Dimensioni Massime'', ''Tolleranze Applicabili'', ''Aspect Ratio'',
      ''Spigoli e Raccordi'', ''Cavit'' @ [CHR 0xE0] @ '' e Fori Ciechi'', ''Canali Aperti'',
      ''Rilievi e Incisioni'', ''Spessore Parete'', ''Base di Appoggio'', ''Filettature'',
      ''Oggetti Cavi'', ''Parti Concatenate'']"
  by (rule validateModel_complete)

subsection \<open>The edge analyzer\<close>

text \<open>
  C3. In every arithmetic, on a triangle soup whose point count is a multiple of 3 and
  whose coordinates are defined, with a normal for every triangle, the edge analyzer
  returns, and all of the following holds with the operations of that arithmetic. For
  every edge with exactly two incident faces the dihedral angle is 180 minus the arc
  cosine of the clamped dot product of the two normals, in degrees. The edges counted as
  sharp are exactly the edges with two incident faces whose dihedral angle, so computed,
  is below 90, and their angles are reported in the order of the map. The estimated
  radius of a sharp edge is its length divided by \<open>2 sin ((90 - dihedral) pi / 360)\<close>.
  The reported minimum radius is 0 when there is no sharp edge, and the least of the
  radii of the sharp edges when there is one and these radii are finite numbers.
\<close>

theorem analyzeEdges_sharp_edges:
  assumes len: "length positions mod 3 = 0" and pos: "\<forall>v \<in> set positions. definedV v"
    and cover: "length (triangleIndices positions) \<le> length faceNormals"
  shows "\<exists>edgeMap r. buildEdgeMap big positions = Inr edgeMap \<and>
     analyzeEdgesIn ar big positions faceNormals = Inr r \<and>
     (\<forall>ke \<in> set (manifoldEdges edgeMap). edgeDihedralIn ar faceNormals ke =
        fsub ar (Fin 180)
          (fmul ar
             (facos ar (Math_min (Fin 1) (Math_max (Fin (- 1))
                (dotIn ar (faceNormals ! (faces (snd ke) ! 0))
                          (faceNormals ! (faces (snd ke) ! 1))))))
             (fdiv ar (Fin 180) (fpi ar)))) \<and>
     sharpEdgeListIn ar faceNormals edgeMap =
       filter (\<lambda>ke. edgeDihedralIn ar faceNormals ke < Fin 90) (manifoldEdges edgeMap) \<and>
     sharpEdges r = num (length (sharpEdgeListIn ar faceNormals edgeMap)) \<and>
     sharpEdgeAngles r =
       map (edgeDihedralIn ar faceNormals) (sharpEdgeListIn ar faceNormals edgeMap) \<and>
     (\<forall>ke \<in> set (sharpEdgeListIn ar faceNormals edgeMap). edgeRadiusIn ar faceNormals ke =
        fdiv ar (edgeLengthIn ar ke)
          (fmul ar (Fin 2)
             (fsin ar (fdiv ar (fmul ar (fsub ar (Fin 90) (edgeDihedralIn ar faceNormals ke))
                                        (fpi ar)) (Fin 360))))) \<and>
     (sharpEdgeListIn ar faceNormals edgeMap = [] \<longrightarrow> estimatedMinCurvatureRadius r = Fin 0) \<and>
     (sharpEdgeListIn ar faceNormals edgeMap \<noteq> [] \<and>
      (\<forall>ke \<in> set (sharpEdgeListIn ar faceNormals edgeMap).
         isFin (edgeRadiusIn ar faceNormals ke)) \<longrightarrow>
      estimatedMinCurvatureRadius r =
        Fin (Min (set (map (\<lambda>ke. realOf (edgeRadiusIn ar faceNormals ke))
                         (sharpEdgeListIn ar faceNormals edgeMap)))))"
proof -
  from edges_formula [OF len pos cover, of big ar] obtain em r
    where f: "buildEdgeMap big positions = Inr em"
      "analyzeEdgesIn ar big positions faceNormals = Inr r"
      "sharpEdges r = num (length (sharpEdgeListIn ar faceNormals em))"
      "sharpEdgeAngles r = map (edgeDihedralIn ar faceNormals) (sharpEdgeListIn ar faceNormals em)"
      "sharpEdgeListIn ar faceNormals em = [] \<longrightarrow> estimatedMinCurvatureRadius r = Fin 0"
      "sharpEdgeListIn ar faceNormals em \<noteq> [] \<and>
       (\<forall>ke \<in> set (sharpEdgeListIn ar faceNormals em). isFin (edgeRadiusIn ar faceNormals ke)) \<longrightarrow>
       estimatedMinCurvatureRadius r =
        Fin (Min (set (map (\<lambda>ke. realOf (edgeRadiusIn ar faceNormals ke))
                         (sharpEdgeListIn ar faceNormals em))))"
    by blast
  have d: "edgeDihedralIn ar faceNormals ke =
        fsub ar (Fin 180)
          (fmul ar
             (facos ar (Math_min (Fin 1) (Math_max (Fin (- 1))
                (dotIn ar (faceNormals ! (faces (snd ke) ! 0))
                          (faceNormals ! (faces (snd ke) ! 1))))))
             (fdiv ar (Fin 180) (fpi ar)))" for ke
    by (simp add: edgeDihedralIn_def dihedralAngleIn_def Let_def)
  have rd: "edgeRadiusIn ar faceNormals ke =
        fdiv ar (edgeLengthIn ar ke)
          (fmul ar (Fin 2)
             (fsin ar (fdiv ar (fmul ar (fsub ar (Fin 90) (edgeDihedralIn ar faceNormals ke))
                                        (fpi ar)) (Fin 360))))" for ke
    by (simp add: edgeRadiusIn_def estimatedRadiusIn_def edgeLengthIn_def Let_def)
  have s: "sharpEdgeListIn ar faceNormals em =
       filter (\<lambda>ke. edgeDihedralIn ar faceNormals ke < Fin 90) (manifoldEdges em)"
    by (simp add: sharpEdgeListIn_def)
  show ?thesis
    apply (intro exI [of _ em] exI [of _ r] conjI)
            apply (rule f(1))
           apply (rule f(2))
          apply (intro ballI, rule d)
         apply (rule s)
        apply (rule f(3))
       apply (rule f(4))
      apply (intro ballI, rule rd)
     apply (rule f(5))
    apply (rule f(6))
    done
qed

theorem analyzeEdges_sharp_edges_witness:
  "map_sum id sharpEdges (analyzeEdgesIn exactArith plainBig twoTriangles twoNormals)
     = Inr (Fin 1) \<and>
   map_sum id sharpEdgeAngles (analyzeEdgesIn exactArith plainBig twoTriangles twoNormals)
     = Inr [Fin 0] \<and>
   map_sum id estimatedMinCurvatureRadius
     (analyzeEdgesIn exactArith plainBig twoTriangles twoNormals)
     = Inr (Fin (1 / (2 * sin (pi / 4))))"
proof -
  have len: "length twoTriangles mod 3 = 0" by (simp add: twoTriangles_def)
  have pos: "\<forall>v \<in> set twoTriangles. definedV v"
    by (simp add: twoTriangles_def definedV_def ptA_def ptB_def ptC_def ptD_def vec_def)
  have cover: "length (triangleIndices twoTriangles) \<le> length twoNormals"
    by (simp add: two_indices twoNormals_def)
  let ?ab = "(''0.0000,0.0000,0.0000-1.0000,0.0000,0.0000'',
              \<lparr>faces = [0, Suc 0], vertices = (ptA, ptB)\<rparr>)"
  have d: "edgeDihedralIn exactArith twoNormals ?ab = Fin 0"
    by (simp add: edgeDihedralIn_def twoNormals_def two_dihedral)
  have rad: "edgeRadiusIn exactArith twoNormals ?ab = Fin (1 / (2 * sin (pi / 4)))"
    by (simp add: edgeRadiusIn_def d two_radius)
  from analyzeEdges_sharp_edges [OF len pos cover, of plainBig exactArith] obtain em r
    where em: "buildEdgeMap plainBig twoTriangles = Inr em"
      and r: "analyzeEdgesIn exactArith plainBig twoTriangles twoNormals = Inr r"
      "sharpEdges r = num (length (sharpEdgeListIn exactArith twoNormals em))"
      "sharpEdgeAngles r =
         map (edgeDihedralIn exactArith twoNormals) (sharpEdgeListIn exactArith twoNormals em)"
      "sharpEdgeListIn exactArith twoNormals em \<noteq> [] \<and>
       (\<forall>ke \<in> set (sharpEdgeListIn exactArith twoNormals em).
          isFin (edgeRadiusIn exactArith twoNormals ke)) \<longrightarrow>
       estimatedMinCurvatureRadius r =
        Fin (Min (set (map (\<lambda>ke. realOf (edgeRadiusIn exactArith twoNormals ke))
                         (sharpEdgeListIn exactArith twoNormals em))))"
    by (elim exE conjE)
  from em have "em = projr (buildEdgeMap plainBig twoTriangles)" by simp
  then have "manifoldEdges em = [?ab]"
    by (simp add: two_map manifoldEdges_def)
  then have sharp: "sharpEdgeListIn exactArith twoNormals em = [?ab]"
    by (simp add: sharpEdgeListIn_def d)
  from r show ?thesis by (simp add: sharp d rad num_def)
qed

subsection \<open>The normal-direction distribution\<close>

text \<open>
  C4, as stated, fails: for the same triangle taken twice with opposite winding the
  mean of the absolute values of the z components of the unit normals is 1, and the
  entry point reports 0.
\<close>

theorem normalDistribution_mean_abs_counterexample:
  "map_sum id (vz \<circ> normalDistribution) (analyzeSTLGeometry plainBig zeroRandom flipSoup)
     = Inr (Fin 0) \<and>
   specNormalMean vz flipSoup = 1"
proof -
  from distribution_formula [OF flip_wellformed, of plainBig] obtain d
    where "analyzeSTLGeometry plainBig zeroRandom flipSoup = Inr d"
      "normalDistribution d = vec (Fin 0) (Fin 0) (Fin 0)"
    by (auto simp: flip_sums)
  moreover have "specNormalMean vz flipSoup = 1"
    by (simp add: specNormalMean_def flip_indices flip_normals vec_def)
  ultimately show ?thesis by (simp add: vec_def)
qed

text \<open>
  C4, amended. For every non-empty triangle soup of finite points, each component of
  the reported normal-direction distribution equals the absolute value of the sum, over
  all triangles, of that component of the unit normal, divided by the triangle count.
\<close>

theorem analyzeSTLGeometry_normal_distribution:
  assumes "length positions mod 3 = 0" and "positions \<noteq> []"
    and "\<forall>v \<in> set positions. finiteV v"
    and "\<forall>s. 0 \<le> rnd s \<and> rnd s < 1"
  shows "\<exists>d. analyzeSTLGeometry big rnd positions = Inr d \<and>
     normalDistribution d =
       vec (Fin (\<bar>normalComponentSum vx positions\<bar> / real (length (triangleIndices positions))))
           (Fin (\<bar>normalComponentSum vy positions\<bar> / real (length (triangleIndices positions))))
           (Fin (\<bar>normalComponentSum vz positions\<bar> / real (length (triangleIndices positions))))"
  using assms by (rule distribution_formula)

theorem analyzeSTLGeometry_normal_distribution_witness:
  "map_sum id normalDistribution (analyzeSTLGeometry plainBig zeroRandom flipSoup)
     = Inr (vec (Fin 0) (Fin 0) (Fin 0))"
  using analyzeSTLGeometry_normal_distribution [OF flip_wellformed, of plainBig]
  by (auto simp: flip_sums)

subsection \<open>The cavity analyzer\<close>

text \<open>
  C5, as stated, fails: for one triangle whose normal points to the centre of the
  bounding box the potential cavity count is 0, so that no cavity is detected, and the
  list of estimated hole depths is not empty: it holds 0.6, which is 0.3 times the
  smallest dimension of the box.
\<close>

theorem analyzeCavities_detected_counterexample:
  "map_sum id potentialCavities
     (analyzeCavities plainBig dentSoup (calculateFaceNormals dentSoup) cavityBox)
     = Inr (Fin 0) \<and>
   map_sum id estimatedHoleDepths
     (analyzeCavities plainBig dentSoup (calculateFaceNormals dentSoup) cavityBox)
     = Inr [Fin 0.6]"
proof -
  have "\<forall>v \<in> set dentSoup. definedV v"
    by (simp add: dentSoup_def definedV_def vec_def)
  then obtain m where m: "buildEdgeMap plainBig dentSoup = Inr m"
    using buildEdgeMap_total [of dentSoup plainBig] by (auto simp: dentSoup_def)
  have len: "length (triangleIndices dentSoup) \<le> length dentNormals"
    by (simp add: triangleIndices_upt dentSoup_def dentNormals_def)
  from cavities_formula [OF m len cavity_size] dent_count
  show ?thesis by (auto simp: num_def dent_normals)
qed

text \<open>
  C5, amended. When the edge map is built and every triangle has a normal, the cavity
  analyzer returns; the potential cavity count is the count of concave regions divided
  by 10, rounded down; and the list of estimated hole depths holds the single value 0.3
  times the smallest dimension of the bounding box exactly when at least one concave
  region is counted, and is empty otherwise. With one to nine concave regions the list
  is not empty while the potential cavity count is 0.
\<close>

theorem analyzeCavities_count_and_depth:
  assumes "buildEdgeMap big positions = Inr edgeMap"
    and "length (triangleIndices positions) \<le> length faceNormals"
    and "getSize box = vec (Fin sx) (Fin sy) (Fin sz)"
  shows "\<exists>r c. analyzeCavities big positions faceNormals box = Inr r \<and>
           countConcaveRegions positions faceNormals box = Inr c \<and>
           potentialCavities r = num (c div 10) \<and>
           estimatedHoleDepths r = (if 0 < c then [Fin (Min {sx, sy, sz} * 0.3)] else [])"
  using assms by (rule cavities_formula)

theorem analyzeCavities_count_and_depth_witness:
  "map_sum id potentialCavities (analyzeCavities plainBig cavitySoup cavityNormals cavityBox)
     = Inr (Fin 1) \<and>
   map_sum id estimatedHoleDepths (analyzeCavities plainBig cavitySoup cavityNormals cavityBox)
     = Inr [Fin 0.6]"
proof -
  have "\<forall>v \<in> set cavitySoup. definedV v"
    by (simp add: cavitySoup_def definedV_def vec_def)
  then obtain m where m: "buildEdgeMap plainBig cavitySoup = Inr m"
    using buildEdgeMap_total [of cavitySoup plainBig] by (auto simp: cavitySoup_def)
  have len: "length (triangleIndices cavitySoup) \<le> length cavityNormals"
    by (simp add: triangleIndices_upt cavitySoup_def cavityNormals_def)
  from analyzeCavities_count_and_depth [OF m len cavity_size] cavity_count
  show ?thesis by (auto simp: num_def)
qed

subsection \<open>The envelope check\<close>

text \<open>
  C6. When the length of the model is 60 mm, above the 50 mm limit of the guideline
  table, the check named Dimensioni Massime has not passed and its severity is error,
  whatever the other metrics are.
\<close>

theorem validateModel_length_60:
  "dimLength (dimensions data) = Fin 60 \<Longrightarrow>
   find (\<lambda>r. name r = ''Dimensioni Massime'') (validateModel data) =
     Some \<lparr>name = ''Dimensioni Massime'', passed = False, severity = Some Error\<rparr>"
  by (simp add: validateModel_def Let_def GUIDELINES_def)

theorem validateModel_length_60_witness:
  "dimLength (dimensions exampleBlock) = Fin 60 \<and>
   find (\<lambda>r. name r = ''Dimensioni Massime'') (validateModel exampleBlock) =
     Some \<lparr>name = ''Dimensioni Massime'', passed = False, severity = Some Error\<rparr>"
proof -
  have len: "dimLength (dimensions exampleBlock) = Fin 60"
    by (simp add: exampleBlock_def)
  from len validateModel_length_60 [OF len] show ?thesis
    by simp
qed

subsection \<open>The channel analyzer\<close>

text \<open>
  C7. The channel analyzer reports no curved channel: whenever it returns, the count of
  curved channels is 0, and when the classification is made (more than ten tubular
  samples) the count of straight channels is 1. It returns whenever the array of normals
  has an entry for every triangle.
\<close>

theorem analyzeChannels_never_curved:
  "(\<forall>r. analyzeChannels positions faceNormals box = Inr r \<longrightarrow>
      curvedChannels r = Fin 0 \<and>
      (\<forall>t. countTubularRegions positions faceNormals = Inr t \<and> 10 < t \<longrightarrow>
         straightChannels r = Fin 1)) \<and>
   (length (triangleIndices positions) \<le> length faceNormals \<longrightarrow>
      (\<exists>r. analyzeChannels positions faceNormals box = Inr r))"
proof (rule conjI)
  show "\<forall>r. analyzeChannels positions faceNormals box = Inr r \<longrightarrow>
      curvedChannels r = Fin 0 \<and>
      (\<forall>t. countTubularRegions positions faceNormals = Inr t \<and> 10 < t \<longrightarrow>
         straightChannels r = Fin 1)"
  proof (rule allI, rule impI)
    fix r assume "analyzeChannels positions faceNormals box = Inr r"
    then obtain t where t: "countTubularRegions positions faceNormals = Inr t"
      and r: "curvedChannels r = num 0" "straightChannels r = num (if 10 < t then 1 else 0)"
      by (auto simp: analyzeChannels_def Let_def bindR_Inr_iff)
    from t r show "curvedChannels r = Fin 0 \<and>
      (\<forall>t. countTubularRegions positions faceNormals = Inr t \<and> 10 < t \<longrightarrow>
         straightChannels r = Fin 1)"
      by (auto simp: num_def)
  qed
  show "length (triangleIndices positions) \<le> length faceNormals \<longrightarrow>
      (\<exists>r. analyzeChannels positions faceNormals box = Inr r)"
  proof (rule impI)
    assume "length (triangleIndices positions) \<le> length faceNormals"
    then obtain t where "countTubularRegions positions faceNormals = Inr t"
      using countTubularRegions_total by blast
    then show "\<exists>r. analyzeChannels positions faceNormals box = Inr r"
      by (simp add: analyzeChannels_def Let_def)
  qed
qed

theorem analyzeChannels_never_curved_witness:
  "countTubularRegions tubeSoup tubeNormals = Inr 11 \<and>
   map_sum id curvedChannels (analyzeChannels tubeSoup tubeNormals tubeBox) = Inr (Fin 0) \<and>
   map_sum id straightChannels (analyzeChannels tubeSoup tubeNormals tubeBox) = Inr (Fin 1)"
proof -
  have len: "length (triangleIndices tubeSoup) \<le> length tubeNormals"
    by (simp add: triangleIndices_upt tubeSoup_def tubeNormals_def)
  from analyzeChannels_never_curved [of tubeSoup tubeNormals tubeBox] len tube_count
  show ?thesis by auto
qed

subsection \<open>The edge key\<close>

text \<open>
  C8. The edge key does not depend on the order of the two end points. When a triangle
  \<open>i\<close> has the edge \<open>(a, b)\<close>, another triangle \<open>j\<close> the edge \<open>(b, a)\<close>, and no other edge of
  the mesh has the same key, the adjacency map stores that key once, with the two
  incident faces \<open>i\<close> and \<open>j\<close>.
\<close>

theorem edge_key_order_independent:
  "makeEdgeKey big a b = makeEdgeKey big b a \<and>
   (buildEdgeMap big positions = Inr m \<and>
    i \<in> set (triangleIndices positions) \<and> j \<in> set (triangleIndices positions) \<and>
    i \<noteq> j \<and> a \<noteq> b \<and>
    (a, b) \<in> set (triangleEdges positions i) \<and> (b, a) \<in> set (triangleEdges positions j) \<and>
    (\<forall>t \<in> set (triangleIndices positions). \<forall>e \<in> set (triangleEdges positions t).
       makeEdgeKey big (fst e) (snd e) = makeEdgeKey big a b \<longrightarrow>
       (t = i \<and> e = (a, b)) \<or> (t = j \<and> e = (b, a))) \<longrightarrow>
    (\<exists>k e. makeEdgeKey big a b = Inr k \<and> filter (\<lambda>ke. fst ke = k) m = [(k, e)] \<and>
       faces e = [min i j, max i j]))"
proof (rule conjI)
  show "makeEdgeKey big a b = makeEdgeKey big b a" by (rule makeEdgeKey_swap)
  show "buildEdgeMap big positions = Inr m \<and>
    i \<in> set (triangleIndices positions) \<and> j \<in> set (triangleIndices positions) \<and>
    i \<noteq> j \<and> a \<noteq> b \<and>
    (a, b) \<in> set (triangleEdges positions i) \<and> (b, a) \<in> set (triangleEdges positions j) \<and>
    (\<forall>t \<in> set (triangleIndices positions). \<forall>e \<in> set (triangleEdges positions t).
       makeEdgeKey big (fst e) (snd e) = makeEdgeKey big a b \<longrightarrow>
       (t = i \<and> e = (a, b)) \<or> (t = j \<and> e = (b, a))) \<longrightarrow>
    (\<exists>k e. makeEdgeKey big a b = Inr k \<and> filter (\<lambda>ke. fst ke = k) m = [(k, e)] \<and>
       faces e = [min i j, max i j])"
  proof (rule impI, elim conjE)
    assume build: "buildEdgeMap big positions = Inr m"
      and i: "i \<in> set (triangleIndices positions)" and j: "j \<in> set (triangleIndices positions)"
      and ne: "i \<noteq> j" and ab: "a \<noteq> b"
      and ei: "(a, b) \<in> set (triangleEdges positions i)"
      and ej: "(b, a) \<in> set (triangleEdges positions j)"
      and only: "\<forall>t \<in> set (triangleIndices positions). \<forall>e \<in> set (triangleEdges positions t).
          makeEdgeKey big (fst e) (snd e) = makeEdgeKey big a b \<longrightarrow>
          (t = i \<and> e = (a, b)) \<or> (t = j \<and> e = (b, a))"
    show "\<exists>k e. makeEdgeKey big a b = Inr k \<and> filter (\<lambda>ke. fst ke = k) m = [(k, e)] \<and>
       faces e = [min i j, max i j]"
    proof (cases "i < j")
      case True
      from shared_edge_faces [OF build True j ab ei ej only] True show ?thesis
        by (simp add: min_def max_def)
    next
      case False
      with ne have ji: "j < i" by simp
      have only': "\<forall>t \<in> set (triangleIndices positions). \<forall>e \<in> set (triangleEdges positions t).
          makeEdgeKey big (fst e) (snd e) = makeEdgeKey big b a \<longrightarrow>
          (t = j \<and> e = (b, a)) \<or> (t = i \<and> e = (a, b))"
        using only makeEdgeKey_swap [of big a b] by auto
      from shared_edge_faces [OF build ji i ab [symmetric] ej ei only'] ji
        makeEdgeKey_swap [of big a b]
      show ?thesis by (simp add: min_def max_def)
    qed
  qed
qed

theorem edge_key_order_independent_witness:
  "makeEdgeKey plainBig ptA ptB = makeEdgeKey plainBig ptB ptA \<and>
   (\<exists>m e. buildEdgeMap plainBig twoTriangles = Inr m \<and>
      filter (\<lambda>ke. fst ke = ''0.0000,0.0000,0.0000-1.0000,0.0000,0.0000'') m =
        [(''0.0000,0.0000,0.0000-1.0000,0.0000,0.0000'', e)] \<and>
      faces e = [0, 1])"
proof -
  have "\<forall>v \<in> set twoTriangles. definedV v"
    by (simp add: twoTriangles_def definedV_def ptA_def ptB_def ptC_def ptD_def vec_def)
  then obtain m where m: "buildEdgeMap plainBig twoTriangles = Inr m"
    using buildEdgeMap_total [of twoTriangles plainBig] by (auto simp: twoTriangles_def)
  have only: "\<forall>t \<in> set (triangleIndices twoTriangles). \<forall>e \<in> set (triangleEdges twoTriangles t).
       makeEdgeKey plainBig (fst e) (snd e) = makeEdgeKey plainBig ptA ptB \<longrightarrow>
       (t = 0 \<and> e = (ptA, ptB)) \<or> (t = 1 \<and> e = (ptB, ptA))"
    by (simp add: two_indices two_edges two_keys)
  from edge_key_order_independent [of plainBig ptA ptB twoTriangles m 0 1] m only two_points
  show ?thesis
    by (simp add: two_indices two_edges two_keys)
qed

subsection \<open>Degenerate triangles\<close>

text \<open>
  C9. The face normal computation yields one normal for every triangle of every soup and
  raises nothing. For a triangle whose cross product has length zero the normal is the
  zero vector. Every consumer of the normals accepts the zero vector: its dot product
  with a finite vector is the number 0; the edge loop, the cavity loop, the channel loop
  and the search for an opposite face of the wall thickness sampler return their state
  unchanged; and the curvature loop adds the difference 1.
\<close>

theorem degenerate_normals_tolerated:
  "length (calculateFaceNormals positions) = length (triangleIndices positions) \<and>
   (lengthV (crossVectors
       (subVectors (fromBufferAttribute positions (i * 3 + 1))
          (fromBufferAttribute positions (i * 3)))
       (subVectors (fromBufferAttribute positions (i * 3 + 2))
          (fromBufferAttribute positions (i * 3)))) = Fin 0 \<longrightarrow>
    faceNormal positions i = zeroV) \<and>
   (i \<in> set (triangleIndices positions) \<longrightarrow>
    nthNormal (calculateFaceNormals positions) i = Inr (faceNormal positions i)) \<and>
   (finiteV n \<longrightarrow> dot zeroV n = Fin 0 \<and> dot n zeroV = Fin 0) \<and>
   (faces e = [f0, f1] \<and> f0 < length ns \<and> f1 < length ns \<and>
    (ns ! f0 = zeroV \<or> ns ! f1 = zeroV) \<and> finiteV (ns ! f0) \<and> finiteV (ns ! f1) \<longrightarrow>
    edgeStep ns (k, e) s = Inr s) \<and>
   (j < length ns \<and> ns ! j = zeroV \<longrightarrow>
    concaveStep positions ns box j c = Inr c \<and> tubularStep ns j c = Inr c) \<and>
   (j < length ns \<and> ns ! j = zeroV \<and> finiteV normal \<longrightarrow>
    oppositeStep positions ns triIndex normal centroid j d = Inr d) \<and>
   (ns ! j = zeroV \<and> finiteV (ns ! (j - 1)) \<longrightarrow>
    curvatureStep ns j acc = (fst acc + Fin 1, snd acc + Fin 1))"
proof (intro conjI impI)
  show "length (calculateFaceNormals positions) = length (triangleIndices positions)"
    by (rule length_calculateFaceNormals)
next
  assume "lengthV (crossVectors
       (subVectors (fromBufferAttribute positions (i * 3 + 1))
          (fromBufferAttribute positions (i * 3)))
       (subVectors (fromBufferAttribute positions (i * 3 + 2))
          (fromBufferAttribute positions (i * 3)))) = Fin 0"
  then show "faceNormal positions i = zeroV"
    by (simp add: faceNormal_def Let_def normalize_zero_length)
next
  assume "i \<in> set (triangleIndices positions)"
  then show "nthNormal (calculateFaceNormals positions) i = Inr (faceNormal positions i)"
    by (rule nthNormal_calculateFaceNormals)
next
  assume "finiteV n"
  then show "dot zeroV n = Fin 0" "dot n zeroV = Fin 0" by (simp_all add: dot_zeroV)
next
  assume "faces e = [f0, f1] \<and> f0 < length ns \<and> f1 < length ns \<and>
    (ns ! f0 = zeroV \<or> ns ! f1 = zeroV) \<and> finiteV (ns ! f0) \<and> finiteV (ns ! f1)"
  then show "edgeStep ns (k, e) s = Inr s" by (intro edgeStep_zero_normal) auto
next
  assume "j < length ns \<and> ns ! j = zeroV"
  then show "concaveStep positions ns box j c = Inr c" "tubularStep ns j c = Inr c"
    by (simp_all add: concaveStep_zero_normal tubularStep_zero_normal)
next
  assume "j < length ns \<and> ns ! j = zeroV \<and> finiteV normal"
  then show "oppositeStep positions ns triIndex normal centroid j d = Inr d"
    by (simp add: oppositeStep_zero_normal)
next
  assume "ns ! j = zeroV \<and> finiteV (ns ! (j - 1))"
  then show "curvatureStep ns j acc = (fst acc + Fin 1, snd acc + Fin 1)"
    by (simp add: curvatureStep_zero_normal)
qed

theorem degenerate_normals_tolerated_witness:
  "calculateFaceNormals lineSoup = [zeroV] \<and>
   dot zeroV upNormal = Fin 0 \<and>
   edgeStep [zeroV, upNormal] (''key'', lineEdge) edgeLoopStart = Inr edgeLoopStart \<and>
   concaveStep lineSoup [zeroV, upNormal] tubeBox 0 0 = Inr 0 \<and>
   tubularStep [zeroV, upNormal] 0 0 = Inr 0 \<and>
   oppositeStep lineSoup [zeroV, upNormal] 1 upNormal upNormal 0 PInf = Inr PInf \<and>
   curvatureStep [upNormal, zeroV] 1 (Fin 0, Fin 0) = (Fin 1, Fin 1)"
proof -
  have idx: "triangleIndices lineSoup = [0]"
    by (simp add: triangleIndices_upt lineSoup_def)
  have deg: "lengthV (crossVectors
       (subVectors (fromBufferAttribute lineSoup (0 * 3 + 1)) (fromBufferAttribute lineSoup (0 * 3)))
       (subVectors (fromBufferAttribute lineSoup (0 * 3 + 2)) (fromBufferAttribute lineSoup (0 * 3))))
       = Fin 0"
    by (simp add: lineSoup_def fromBufferAttribute_def subVectors_def crossVectors_def
        lengthV_def vec_def minus_number_def)
  have fin: "finiteV upNormal" "finiteV zeroV"
    by (simp_all add: finiteV_def upNormal_def zeroV_def vec_def)
  have a: "length (calculateFaceNormals lineSoup) = 1"
    "nthNormal (calculateFaceNormals lineSoup) 0 = Inr zeroV"
    using degenerate_normals_tolerated [where positions = lineSoup and i = 0] deg idx
    by simp_all
  then have normals: "calculateFaceNormals lineSoup = [zeroV]"
    by (cases "calculateFaceNormals lineSoup") (simp_all add: nthNormal_def)
  have b: "dot zeroV upNormal = Fin 0"
    "edgeStep [zeroV, upNormal] (''key'', lineEdge) edgeLoopStart = Inr edgeLoopStart"
    "concaveStep lineSoup [zeroV, upNormal] tubeBox 0 0 = Inr 0"
    "tubularStep [zeroV, upNormal] 0 0 = Inr 0"
    "oppositeStep lineSoup [zeroV, upNormal] 1 upNormal upNormal 0 PInf = Inr PInf"
    using degenerate_normals_tolerated [where n = upNormal and e = lineEdge and ?f0.0 = 0
        and ?f1.0 = 1 and ns = "[zeroV, upNormal]" and j = 0 and normal = upNormal
        and positions = lineSoup and k = "''key''" and s = edgeLoopStart and box = tubeBox and c = 0
        and triIndex = 1 and centroid = upNormal and d = PInf] fin
    by (simp_all add: lineEdge_def)
  have c: "curvatureStep [upNormal, zeroV] 1 (Fin 0, Fin 0) = (Fin 1, Fin 1)"
    using degenerate_normals_tolerated [where ns = "[upNormal, zeroV]" and j = 1
        and acc = "(Fin 0, Fin 0)"] fin
    by simp
  from normals b c show ?thesis by simp
qed

subsection \<open>Severities\<close>

text \<open>
  C10. Every result of \<open>validateModel\<close> carries a severity, one of error, warning and
  info, and a result of severity error has not passed.
\<close>

theorem validateModel_severity:
  "\<forall>r \<in> set (validateModel data).
     severity r \<in> {Some Error, Some Warning, Some Info} \<and>
     (severity r = Some Error \<longrightarrow> \<not> passed r)"
  by (simp add: validateModel_def Let_def)

theorem validateModel_severity_witness:
  "hd (validateModel exampleBlock) \<in> set (validateModel exampleBlock) \<and>
   severity (hd (validateModel exampleBlock)) = Some Error \<and>
   \<not> passed (hd (validateModel exampleBlock))"
proof -
  have mem: "hd (validateModel exampleBlock) \<in> set (validateModel exampleBlock)"
    by (simp add: validateModel_def Let_def)
  have sev: "severity (hd (validateModel exampleBlock)) = Some Error"
    by (simp add: validateModel_def Let_def exampleBlock_def GUIDELINES_def)
  from validateModel_severity [of exampleBlock] mem sev show ?thesis
    by blast
qed

end
